theory Spec2Isabelle
  imports
    Complex_Main
    "HOL-Library.Char_ord"
    "HOL-Library.List_Lexorder"
    "HOL-Library.Product_Lexorder"
    "HOL-Library.Sublist"
begin

section \<open>Numeric cells\<close>

text \<open>
  A numeric cell of a pandas column or a numpy array is a float: a finite number, one of
  the two infinities, or NaN (the missing-value marker). The arithmetic of the
  standardizer below is the IEEE arithmetic of numpy on these four kinds of value, with
  finite results as exact reals: there rounding, overflow and the sign of zero are outside
  the model. Division by zero is not an exception in numpy, it yields an infinity or NaN.
  Where the rounding of a float decides what the program returns it is modelled, further
  down: in the products and the sum of \<open>time_split\<close> (binary64) and in the conversion
  to float32 of \<open>make_sequences\<close>.
\<close>

datatype fval = Fin real | PInf | NInf | NaN

fun isnan :: "fval \<Rightarrow> bool" where
  "isnan NaN = True"
| "isnan _ = False"

fun isinf :: "fval \<Rightarrow> bool" where
  "isinf PInf = True"
| "isinf NInf = True"
| "isinf _ = False"

fun fneg :: "fval \<Rightarrow> fval" where
  "fneg (Fin a) = Fin (- a)"
| "fneg PInf = NInf"
| "fneg NInf = PInf"
| "fneg NaN = NaN"

fun fadd :: "fval \<Rightarrow> fval \<Rightarrow> fval" where
  "fadd NaN _ = NaN"
| "fadd _ NaN = NaN"
| "fadd (Fin a) (Fin b) = Fin (a + b)"
| "fadd (Fin a) PInf = PInf"
| "fadd (Fin a) NInf = NInf"
| "fadd PInf (Fin b) = PInf"
| "fadd NInf (Fin b) = NInf"
| "fadd PInf PInf = PInf"
| "fadd NInf NInf = NInf"
| "fadd PInf NInf = NaN"
| "fadd NInf PInf = NaN"

definition fsub :: "fval \<Rightarrow> fval \<Rightarrow> fval" where
  "fsub x y = fadd x (fneg y)"

fun fmul :: "fval \<Rightarrow> fval \<Rightarrow> fval" where
  "fmul NaN _ = NaN"
| "fmul _ NaN = NaN"
| "fmul (Fin a) (Fin b) = Fin (a * b)"
| "fmul (Fin a) PInf = (if a = 0 then NaN else if 0 < a then PInf else NInf)"
| "fmul (Fin a) NInf = (if a = 0 then NaN else if 0 < a then NInf else PInf)"
| "fmul PInf (Fin b) = (if b = 0 then NaN else if 0 < b then PInf else NInf)"
| "fmul NInf (Fin b) = (if b = 0 then NaN else if 0 < b then NInf else PInf)"
| "fmul PInf PInf = PInf"
| "fmul NInf NInf = PInf"
| "fmul PInf NInf = NInf"
| "fmul NInf PInf = NInf"

fun fdiv :: "fval \<Rightarrow> fval \<Rightarrow> fval" where
  "fdiv NaN _ = NaN"
| "fdiv _ NaN = NaN"
| "fdiv (Fin a) (Fin b) =
     (if b = 0 then (if a = 0 then NaN else if 0 < a then PInf else NInf) else Fin (a / b))"
| "fdiv (Fin a) PInf = Fin 0"
| "fdiv (Fin a) NInf = Fin 0"
| "fdiv PInf (Fin b) = (if 0 \<le> b then PInf else NInf)"
| "fdiv NInf (Fin b) = (if 0 \<le> b then NInf else PInf)"
| "fdiv PInf PInf = NaN"
| "fdiv PInf NInf = NaN"
| "fdiv NInf PInf = NaN"
| "fdiv NInf NInf = NaN"

fun fsqrt :: "fval \<Rightarrow> fval" where
  "fsqrt (Fin a) = (if a < 0 then NaN else Fin (sqrt a))"
| "fsqrt PInf = PInf"
| "fsqrt NInf = NaN"
| "fsqrt NaN = NaN"

text \<open>The comparison \<open>x > y\<close> of two floats: false whenever either side is NaN.\<close>

fun fgt :: "fval \<Rightarrow> fval \<Rightarrow> bool" where
  "fgt NaN _ = False"
| "fgt _ NaN = False"
| "fgt (Fin a) (Fin b) = (b < a)"
| "fgt PInf PInf = False"
| "fgt PInf _ = True"
| "fgt NInf _ = False"
| "fgt (Fin a) NInf = True"
| "fgt (Fin a) PInf = False"

section \<open>Rounding to a binary floating-point format\<close>

text \<open>
  Rounding to the nearest integer, ties to the even one; and rounding a real to the
  nearest number of a binary format with \<open>p\<close> significant bits and exponents from
  \<open>emin\<close> to \<open>emax\<close>, ties to the even significand: the number is scaled by the
  quantum of its binade (of the lowest binade for a subnormal), rounded to an integer and
  scaled back; a result beyond the largest finite number is an infinity. \<open>float64\<close>
  is the \<open>float\<close> of Python and the default of numpy, \<open>float32\<close> is
  \<open>np.float32\<close>.
\<close>

definition rne :: "real \<Rightarrow> int" where
  "rne r = (if r - of_int \<lfloor>r\<rfloor> < 1 / 2 then \<lfloor>r\<rfloor>
            else if 1 / 2 < r - of_int \<lfloor>r\<rfloor> then \<lfloor>r\<rfloor> + 1
            else if even \<lfloor>r\<rfloor> then \<lfloor>r\<rfloor> else \<lfloor>r\<rfloor> + 1)"

definition quantum :: "int \<Rightarrow> int \<Rightarrow> real \<Rightarrow> real" where
  "quantum p emin x = 2 powi (max emin \<lfloor>log 2 \<bar>x\<bar>\<rfloor> - p + 1)"

definition round_to :: "int \<Rightarrow> int \<Rightarrow> real \<Rightarrow> real" where
  "round_to p emin x =
     (if x = 0 then 0 else of_int (rne (x / quantum p emin x)) * quantum p emin x)"

definition round_binary :: "int \<Rightarrow> int \<Rightarrow> int \<Rightarrow> real \<Rightarrow> fval" where
  "round_binary p emin emax x =
     (let y = round_to p emin x
      in if 2 powi (emax + 1) \<le> \<bar>y\<bar> then (if 0 < x then PInf else NInf) else Fin y)"

definition float64 :: "real \<Rightarrow> fval" where
  "float64 = round_binary 53 (- 1022) 1023"

definition float32 :: "real \<Rightarrow> fval" where
  "float32 = round_binary 24 (- 126) 127"

text \<open>
  The product and the sum of two Python floats, rounded; and \<open>.astype(np.float32)\<close>
  on one cell.
\<close>

definition dmul :: "fval \<Rightarrow> fval \<Rightarrow> fval" where
  "dmul x y = (case fmul x y of Fin r \<Rightarrow> float64 r | v \<Rightarrow> v)"

definition dadd :: "fval \<Rightarrow> fval \<Rightarrow> fval" where
  "dadd x y = (case fadd x y of Fin r \<Rightarrow> float64 r | v \<Rightarrow> v)"

definition astype_float32 :: "fval \<Rightarrow> fval" where
  "astype_float32 v = (case v of Fin a \<Rightarrow> float32 a | _ \<Rightarrow> v)"

section \<open>Python slicing and indexing\<close>

text \<open>
  An exception is its class, and for a RuntimeError its message. \<open>int(x)\<close> truncates
  a finite float towards zero and raises ValueError for NaN and OverflowError for an
  infinity; an integer that enters float arithmetic is converted to the nearest float,
  with OverflowError beyond the largest one. A slice bound that is negative counts from
  the end, and every bound is clipped to the sequence; slicing never raises. Indexing
  with a single integer raises IndexError out of range.
\<close>

datatype error =
    KeyError | IndexError | ValueError | TypeError | OverflowError | RuntimeError string
  | FileNotFoundError | ZeroDivisionError

definition py_int :: "real \<Rightarrow> int" where
  "py_int x = (if 0 \<le> x then \<lfloor>x\<rfloor> else \<lceil>x\<rceil>)"

definition int_of_float :: "fval \<Rightarrow> error + int" where
  "int_of_float x =
     (case x of Fin a \<Rightarrow> Inr (py_int a) | NaN \<Rightarrow> Inl ValueError | _ \<Rightarrow> Inl OverflowError)"

definition float_of_int :: "int \<Rightarrow> error + fval" where
  "float_of_int n = (case float64 (of_int n) of Fin a \<Rightarrow> Inr (Fin a) | _ \<Rightarrow> Inl OverflowError)"

definition slice_index :: "nat \<Rightarrow> int \<Rightarrow> nat" where
  "slice_index n i = (if i < 0 then nat (max 0 (int n + i)) else min n (nat i))"

definition py_slice :: "'a list \<Rightarrow> int option \<Rightarrow> int option \<Rightarrow> 'a list" where
  "py_slice xs a b =
     (let n = length xs;
          lo = (case a of None \<Rightarrow> 0 | Some i \<Rightarrow> slice_index n i);
          hi = (case b of None \<Rightarrow> n | Some j \<Rightarrow> slice_index n j)
      in take (hi - lo) (drop lo xs))"

definition py_index :: "'a list \<Rightarrow> int \<Rightarrow> error + 'a" where
  "py_index xs i =
     (if 0 \<le> i \<and> i < int (length xs) then Inr (xs ! nat i)
      else if i < 0 \<and> - int (length xs) \<le> i then Inr (xs ! nat (int (length xs) + i))
      else Inl IndexError)"

text \<open>\<open>range(a, b)\<close> over Python integers.\<close>

definition py_range :: "int \<Rightarrow> int \<Rightarrow> int list" where
  "py_range a b = [a..b - 1]"

section \<open>The data model of \<open>data.py\<close>\<close>

definition FEATURES :: "string list" where
  "FEATURES = [''Score'', ''Ts'', ''avgTs'', ''compVolPct'', ''compSentPct'', ''TVolComp'',
     ''MVolComp'', ''close'', ''volume'', ''ret1'']"

text \<open>
  A row of the data frame: the ticker, the date, the feature columns by name and the label
  \<open>y_up\<close>. The type of the date column and of the feature cells changes while
  \<open>load_dataset\<close> runs (text as read from the CSV, then parsed values), so both are
  parameters of the record. A parsed date is a timestamp or NaT.
\<close>

datatype stamp = At int | NaT

record ('d, 'c) frame_row =
  ticker :: string
  date :: 'd
  feat :: "string \<Rightarrow> 'c"
  y_up :: fval

type_synonym raw_row = "(string, string) frame_row"
type_synonym dated_row = "(stamp, string) frame_row"
type_synonym row = "(stamp, fval) frame_row"


section \<open>\<open>load_dataset\<close>\<close>

text \<open>
  The CSV file is the list of its rows as read, with the label already numeric (NaN where
  the cell is blank). The two parsers of pandas are parameters: \<open>to_datetime\<close> parses
  one date cell (\<open>None\<close>: the text is no date, and \<open>pd.to_datetime\<close> raises;
  \<open>Some NaT\<close>: a blank cell), \<open>parse_float\<close> parses one numeric cell
  (\<open>None\<close>: not a number, which \<open>errors="coerce"\<close> turns into NaN).
\<close>

primrec to_datetime_col ::
  "(string \<Rightarrow> stamp option) \<Rightarrow> raw_row list \<Rightarrow> error + dated_row list" where
  "to_datetime_col to_datetime [] = Inr []"
| "to_datetime_col to_datetime (r # rs) =
     (case to_datetime (date r) of
        None \<Rightarrow> Inl ValueError
      | Some d \<Rightarrow>
          (case to_datetime_col to_datetime rs of
             Inl e \<Rightarrow> Inl e
           | Inr rs' \<Rightarrow>
               Inr (\<lparr>ticker = ticker r, date = d, feat = feat r, y_up = y_up r\<rparr> # rs')))"

text \<open>
  \<open>sort_values(["ticker", "date"])\<close>: a stable sort on the pair of the two columns,
  compared lexicographically, strings by code point, with NaT after every timestamp
  (pandas' \<open>na_position="last"\<close>).
\<close>

fun date_key :: "stamp \<Rightarrow> bool \<times> int" where
  "date_key (At t) = (False, t)"
| "date_key NaT = (True, 0)"

definition sort_cols :: "(stamp, 'c) frame_row \<Rightarrow> string \<times> bool \<times> int" where
  "sort_cols r = (ticker r, date_key (date r))"

definition sort_values :: "(stamp, 'c) frame_row list \<Rightarrow> (stamp, 'c) frame_row list" where
  "sort_values df = sort_key sort_cols df"

definition to_numeric :: "(string \<Rightarrow> fval option) \<Rightarrow> string \<Rightarrow> fval" where
  "to_numeric parse_float s = (case parse_float s of None \<Rightarrow> NaN | Some v \<Rightarrow> v)"

text \<open>
  The loop over \<open>FEATURES\<close> that coerces each feature column. The model coerces the
  cell of every column name, the feature columns being the only ones read afterwards.
\<close>

definition coerce_features :: "(string \<Rightarrow> fval option) \<Rightarrow> dated_row \<Rightarrow> row" where
  "coerce_features parse_float r =
     \<lparr>ticker = ticker r, date = date r,
      feat = (\<lambda>c. to_numeric parse_float (feat r c)), y_up = y_up r\<rparr>"

text \<open>The rows that survive \<open>dropna\<close> and the ticker filter, in the order of the file.\<close>

definition kept_rows :: "raw_row list \<Rightarrow> string list option \<Rightarrow> raw_row list" where
  "kept_rows csv tickers =
     (let df = filter (\<lambda>r. \<not> isnan (y_up r)) csv
      in case tickers of
           None \<Rightarrow> df
         | Some ts \<Rightarrow> if ts \<noteq> [] then filter (\<lambda>r. ticker r \<in> set ts) df else df)"

definition load_dataset ::
  "(string \<Rightarrow> stamp option) \<Rightarrow> (string \<Rightarrow> fval option) \<Rightarrow> raw_row list \<Rightarrow>
   string list option \<Rightarrow> error + row list" where
  "load_dataset to_datetime parse_float csv tickers =
     (case to_datetime_col to_datetime (kept_rows csv tickers) of
        Inl e \<Rightarrow> Inl e
      | Inr df \<Rightarrow> Inr (map (coerce_features parse_float) (sort_values df)))"

section \<open>\<open>time_split\<close>\<close>

text \<open>
  The two fractions are Python floats. Each cut is the float product of the row count
  and a float, truncated by \<open>int\<close>; \<open>train_frac + val_frac\<close> is a float sum.
\<close>

definition time_split ::
  "'a list \<Rightarrow> fval \<Rightarrow> fval \<Rightarrow> error + 'a list \<times> 'a list \<times> 'a list" where
  "time_split df train_frac val_frac =
     (case float_of_int (int (length df)) of Inl e \<Rightarrow> Inl e | Inr n \<Rightarrow>
     (case int_of_float (dmul n train_frac) of Inl e \<Rightarrow> Inl e | Inr cut1 \<Rightarrow>
     (case int_of_float (dmul n (dadd train_frac val_frac)) of Inl e \<Rightarrow> Inl e | Inr cut2 \<Rightarrow>
        Inr (py_slice df None (Some cut1),
             py_slice df (Some cut1) (Some cut2),
             py_slice df (Some cut2) None))))"

section \<open>The standardizer\<close>

record stat =
  mean :: fval
  std :: fval

text \<open>
  \<open>np.nanmean\<close> and \<open>np.nanstd\<close> (the population standard deviation) skip the NaN
  entries; with no entry left both are NaN.
\<close>

definition nanmean :: "fval list \<Rightarrow> fval" where
  "nanmean x =
     (let ys = filter (\<lambda>v. \<not> isnan v) x
      in if ys = [] then NaN else fdiv (foldl fadd (Fin 0) ys) (Fin (real (length ys))))"

definition nanstd :: "fval list \<Rightarrow> fval" where
  "nanstd x =
     (let ys = filter (\<lambda>v. \<not> isnan v) x
      in if ys = [] then NaN
         else fsqrt (fdiv (foldl fadd (Fin 0)
                (map (\<lambda>v. fmul (fsub v (nanmean x)) (fsub v (nanmean x))) ys))
              (Fin (real (length ys)))))"

definition replace_inf :: "fval \<Rightarrow> fval \<Rightarrow> fval" where
  "replace_inf new v = (if isinf v then new else v)"

definition fillna :: "fval \<Rightarrow> fval \<Rightarrow> fval" where
  "fillna new v = (if isnan v then new else v)"

definition fit_column :: "row list \<Rightarrow> string \<Rightarrow> stat" where
  "fit_column train_df c =
     (let x = map (\<lambda>r. replace_inf NaN (feat r c)) train_df;
          mu = nanmean x;
          sd = (if fgt (nanstd x) (Fin (1 / 10 ^ 12)) then nanstd x else Fin 1)
      in \<lparr>mean = mu, std = sd\<rparr>)"

definition fit_standardizer :: "row list \<Rightarrow> (string \<rightharpoonup> stat)" where
  "fit_standardizer train_df =
     foldl (\<lambda>stats c. stats(c \<mapsto> fit_column train_df c)) Map.empty FEATURES"

definition standardize :: "stat \<Rightarrow> fval \<Rightarrow> fval" where
  "standardize s v = fillna (Fin 0) (replace_inf (Fin 0) (fdiv (fsub v (mean s)) (std s)))"

fun apply_columns :: "string list \<Rightarrow> (string \<rightharpoonup> stat) \<Rightarrow> row list \<Rightarrow> error + row list" where
  "apply_columns [] stats out = Inr out"
| "apply_columns (c # cs) stats out =
     (case stats c of
        None \<Rightarrow> Inl KeyError
      | Some s \<Rightarrow>
          apply_columns cs stats
            (map (\<lambda>r. r\<lparr>feat := (feat r)(c := standardize s (feat r c))\<rparr>) out))"

definition apply_standardizer :: "row list \<Rightarrow> (string \<rightharpoonup> stat) \<Rightarrow> error + row list" where
  "apply_standardizer df stats = apply_columns FEATURES stats df"

section \<open>\<open>make_sequences\<close>\<close>

text \<open>
  \<open>groupby("ticker")\<close> yields one group per ticker, the groups by increasing ticker,
  the rows of a group in the order of the frame.
\<close>

definition groupby_ticker :: "row list \<Rightarrow> (string \<times> row list) list" where
  "groupby_ticker df =
     map (\<lambda>k. (k, filter (\<lambda>r. ticker r = k) df)) (sort (remdups (map ticker df)))"

type_synonym window = "fval list list"

fun window_loop ::
  "window \<Rightarrow> fval list \<Rightarrow> int \<Rightarrow> int list \<Rightarrow> window list \<times> fval list \<Rightarrow>
   error + window list \<times> fval list" where
  "window_loop feats labels seq_len [] acc = Inr acc"
| "window_loop feats labels seq_len (t # ts) (X_all, y_all) =
     (case py_index labels t of
        Inl e \<Rightarrow> Inl e
      | Inr y \<Rightarrow>
          window_loop feats labels seq_len ts
            (X_all @ [py_slice feats (Some (t - seq_len + 1)) (Some (t + 1))], y_all @ [y]))"

fun group_loop ::
  "(string \<times> row list) list \<Rightarrow> int \<Rightarrow> window list \<times> fval list \<Rightarrow>
   error + window list \<times> fval list" where
  "group_loop [] seq_len acc = Inr acc"
| "group_loop ((tkr, g) # gs) seq_len acc =
     (let feats = map (\<lambda>r. map (\<lambda>c. astype_float32 (feat r c)) FEATURES) g;
          labels = map (\<lambda>r. astype_float32 (y_up r)) g
      in case window_loop feats labels seq_len (py_range (seq_len - 1) (int (length g))) acc of
           Inl e \<Rightarrow> Inl e
         | Inr acc' \<Rightarrow> group_loop gs seq_len acc')"

text \<open>
  \<open>np.stack\<close> raises ValueError unless all windows have one shape, and
  \<open>np.zeros\<close> raises ValueError for a negative dimension.
\<close>

definition make_sequences :: "row list \<Rightarrow> int \<Rightarrow> error + window list \<times> fval list" where
  "make_sequences df seq_len =
     (case group_loop (groupby_ticker df) seq_len ([], []) of
        Inl e \<Rightarrow> Inl e
      | Inr (X_all, y_all) \<Rightarrow>
          if X_all \<noteq> []
          then (if list_all (\<lambda>w. length w = length (hd X_all)) X_all
                then Inr (X_all, y_all) else Inl ValueError)
          else if seq_len < 0 then Inl ValueError else Inr ([], y_all))"


section \<open>The files of the model directory\<close>

text \<open>
  A JSON value as \<open>json.load\<close> returns it (a number, a string, an array or null;
  booleans and objects, which the training program writes nowhere, are left out), and
  the state the two programs share: the
  files \<open>scaler.json\<close>, \<open>model.pt\<close> and \<open>meta.json\<close> of the output
  directory, and the number of training passes the model in memory has received. The
  content of \<open>model.pt\<close> is the epoch whose parameters it holds (\<open>0\<close> for a file
  that an earlier run left behind).
\<close>

datatype jval = JInt int | JNum real | JStr string | JArr "jval list" | JNull

record world =
  scaler_json :: "(string \<rightharpoonup> stat) option"
  model_pt :: "int option"
  meta_json :: "(string \<rightharpoonup> jval) option"
  epochs_trained :: nat

section \<open>\<open>train_lstm.py\<close>\<close>

record args =
  arg_seq_len :: int
  arg_hidden :: int
  arg_layers :: int
  arg_dropout :: real
  arg_epochs :: int
  arg_patience :: int
  arg_tickers :: "string list option"

text \<open>
  PyTorch is opaque, and each of its calls may raise. \<open>t_setup\<close> is the building of
  the data loaders, the classifier and the optimizer; \<open>t_train_one\<close> the training
  pass of an epoch; \<open>t_evaluate\<close> the validation pass of an epoch, which gives the
  validation accuracy; \<open>t_save\<close> the writing of the checkpoint in an epoch;
  \<open>t_load\<close> the loading of the checkpoint with the given content; \<open>t_test\<close> the
  test pass with that checkpoint, which gives the test accuracy.
\<close>

record torch =
  t_setup :: "error option"
  t_train_one :: "int \<Rightarrow> error option"
  t_evaluate :: "int \<Rightarrow> error + real"
  t_save :: "int \<Rightarrow> error option"
  t_load :: "int \<Rightarrow> error option"
  t_test :: "int \<Rightarrow> error + real"

text \<open>
  The epoch loop. It returns the exception that ended it, if any, and its state;
  \<open>broke\<close> records that the loop was left by \<open>break\<close>.
\<close>

record loop_state =
  best_val_acc :: real
  patience_left :: int
  wld :: world
  broke :: bool

fun train_loop :: "torch \<Rightarrow> int \<Rightarrow> int list \<Rightarrow> loop_state \<Rightarrow> error option \<times> loop_state" where
  "train_loop T patience [] st = (None, st)"
| "train_loop T patience (epoch # rest) st =
     (case t_train_one T epoch of
        Some e \<Rightarrow> (Some e, st)
      | None \<Rightarrow>
          (let w = (wld st)\<lparr>epochs_trained := epochs_trained (wld st) + 1\<rparr>
           in case t_evaluate T epoch of
                Inl e \<Rightarrow> (Some e, st\<lparr>wld := w\<rparr>)
              | Inr va_acc \<Rightarrow>
                  if va_acc > best_val_acc st + 1 / 10 ^ 4
                  then (case t_save T epoch of
                          Some e \<Rightarrow>
                            (Some e, st\<lparr>best_val_acc := va_acc, patience_left := patience,
                                        wld := w\<rparr>)
                        | None \<Rightarrow>
                            train_loop T patience rest
                              (st\<lparr>best_val_acc := va_acc, patience_left := patience,
                                  wld := w\<lparr>model_pt := Some epoch\<rparr>\<rparr>))
                  else (let left = patience_left st - 1
                        in if left \<le> 0
                           then (None, st\<lparr>patience_left := left, wld := w, broke := True\<rparr>)
                           else train_loop T patience rest
                                  (st\<lparr>patience_left := left, wld := w\<rparr>))))"

definition standardize_splits ::
  "(string \<rightharpoonup> stat) \<Rightarrow> row list \<times> row list \<times> row list \<Rightarrow>
   error + row list \<times> row list \<times> row list" where
  "standardize_splits stats splits =
     (case splits of (df_train, df_val, df_test) \<Rightarrow>
        (case apply_standardizer df_train stats of Inl e \<Rightarrow> Inl e | Inr tr \<Rightarrow>
        (case apply_standardizer df_val stats of Inl e \<Rightarrow> Inl e | Inr va \<Rightarrow>
        (case apply_standardizer df_test stats of Inl e \<Rightarrow> Inl e | Inr te \<Rightarrow>
           Inr (tr, va, te)))))"

definition sequence_splits ::
  "int \<Rightarrow> row list \<times> row list \<times> row list \<Rightarrow>
   error + (window list \<times> fval list) \<times> (window list \<times> fval list) \<times> (window list \<times> fval list)"
  where
  "sequence_splits seq_len splits =
     (case splits of (df_train, df_val, df_test) \<Rightarrow>
        (case make_sequences df_train seq_len of Inl e \<Rightarrow> Inl e | Inr tr \<Rightarrow>
        (case make_sequences df_val seq_len of Inl e \<Rightarrow> Inl e | Inr va \<Rightarrow>
        (case make_sequences df_test seq_len of Inl e \<Rightarrow> Inl e | Inr te \<Rightarrow>
           Inr (tr, va, te)))))"

definition meta_of :: "args \<Rightarrow> real \<Rightarrow> (string \<rightharpoonup> jval)" where
  "meta_of a te_acc =
     [''features'' \<mapsto> JArr (map JStr FEATURES), ''label'' \<mapsto> JStr ''y_up'',
      ''seq_len'' \<mapsto> JInt (arg_seq_len a), ''hidden'' \<mapsto> JInt (arg_hidden a),
      ''layers'' \<mapsto> JInt (arg_layers a), ''dropout'' \<mapsto> JNum (arg_dropout a),
      ''test_accuracy'' \<mapsto> JNum te_acc]"

text \<open>The exception that \<open>main\<close> raises itself, after sequence building.\<close>

definition not_enough_data :: error where
  "not_enough_data =
     RuntimeError
       ''Not enough data after sequence building. Try reducing --seq-len or export more rows.''"

text \<open>
  The part of \<open>main\<close> after the check of the sequences: the set-up, the epoch loop,
  the loading of the best checkpoint, the test pass (\<open>evaluate\<close> divides by the number
  of test sequences) and the writing of \<open>meta.json\<close>.
\<close>

definition train_and_test ::
  "torch \<Rightarrow> args \<Rightarrow> window list \<Rightarrow> world \<Rightarrow> error option \<times> world" where
  "train_and_test T a Xte w1 =
     (case t_setup T of
        Some e \<Rightarrow> (Some e, w1)
      | None \<Rightarrow>
          (case train_loop T (arg_patience a) (py_range 1 (arg_epochs a + 1))
                  \<lparr>best_val_acc = 0, patience_left = arg_patience a, wld = w1,
                   broke = False\<rparr> of
             (Some e, st) \<Rightarrow> (Some e, wld st)
           | (None, st) \<Rightarrow>
               (case model_pt (wld st) of
                  None \<Rightarrow> (Some FileNotFoundError, wld st)
                | Some ck \<Rightarrow>
                    (case t_load T ck of
                       Some e \<Rightarrow> (Some e, wld st)
                     | None \<Rightarrow>
                         if Xte = [] then (Some ZeroDivisionError, wld st)
                         else (case t_test T ck of
                                 Inl e \<Rightarrow> (Some e, wld st)
                               | Inr te_acc \<Rightarrow>
                                   (None, (wld st)\<lparr>meta_json := Some (meta_of a te_acc)\<rparr>))))))"

text \<open>
  \<open>main\<close> of the training program, from the loaded CSV on. It returns the exception
  that ended it, if any, and the state it left. The literals \<open>0.7\<close> and \<open>0.15\<close>
  are the floats nearest to these numbers.
\<close>

definition main_train ::
  "(string \<Rightarrow> stamp option) \<Rightarrow> (string \<Rightarrow> fval option) \<Rightarrow> torch \<Rightarrow>
   args \<Rightarrow> raw_row list \<Rightarrow> world \<Rightarrow> error option \<times> world" where
  "main_train to_datetime parse_float T a csv w0 =
     (case load_dataset to_datetime parse_float csv (arg_tickers a) of
        Inl e \<Rightarrow> (Some e, w0)
      | Inr df \<Rightarrow>
          (case time_split df (float64 (7 / 10)) (float64 (15 / 100)) of
             Inl e \<Rightarrow> (Some e, w0)
           | Inr splits \<Rightarrow>
               (let stats = fit_standardizer (fst splits);
                    w1 = w0\<lparr>scaler_json := Some stats\<rparr>
                in case standardize_splits stats splits of
                     Inl e \<Rightarrow> (Some e, w1)
                   | Inr dfs \<Rightarrow>
                       (case sequence_splits (arg_seq_len a) dfs of
                          Inl e \<Rightarrow> (Some e, w1)
                        | Inr ((Xtr, ytr), (Xva, yva), (Xte, yte)) \<Rightarrow>
                            if Xtr = [] \<or> Xva = [] then (Some not_enough_data, w1)
                            else train_and_test T a Xte w1))))"

section \<open>\<open>predict_lstm.py\<close>\<close>

datatype printed = NoSequences | Predictions "(real \<times> bool) list"

definition sigmoid :: "real \<Rightarrow> real" where
  "sigmoid x = 1 / (1 + exp (- x))"

text \<open>The sequence length the predictor uses: \<open>meta.get("seq_len", args.seq_len)\<close>.\<close>

definition predict_seq_len :: "(string \<rightharpoonup> jval) \<Rightarrow> int \<Rightarrow> jval" where
  "predict_seq_len meta arg = (case meta ''seq_len'' of Some v \<Rightarrow> v | None \<Rightarrow> JInt arg)"

text \<open>
  \<open>make_sequences\<close> called with a JSON value: a \<open>seq_len\<close> that is not an integer
  fails in \<open>range\<close> with TypeError.
\<close>

definition make_sequences_json :: "row list \<Rightarrow> jval \<Rightarrow> error + window list \<times> fval list" where
  "make_sequences_json df v = (case v of JInt n \<Rightarrow> make_sequences df n | _ \<Rightarrow> Inl TypeError)"

text \<open>
  The scoring part of \<open>main\<close>: \<open>load_model hidden layers dropout ck\<close> stands for
  building the classifier and loading checkpoint \<open>ck\<close> into it; it gives the forward
  pass, which maps the batch of all windows to their scores, or the exception raised;
  the forward pass may raise as well. The last ten predictions are printed.
\<close>

type_synonym forward = "window list \<Rightarrow> error + real list"

definition score_sequences ::
  "(jval \<Rightarrow> jval \<Rightarrow> jval \<Rightarrow> int \<Rightarrow> error + forward) \<Rightarrow> (string \<rightharpoonup> jval) \<Rightarrow>
   int option \<Rightarrow> window list \<Rightarrow> error + printed" where
  "score_sequences load_model meta ckpt X =
     (case meta ''hidden'' of None \<Rightarrow> Inl KeyError | Some h \<Rightarrow>
     (case meta ''layers'' of None \<Rightarrow> Inl KeyError | Some l \<Rightarrow>
     (case meta ''dropout'' of None \<Rightarrow> Inl KeyError | Some d \<Rightarrow>
     (case ckpt of None \<Rightarrow> Inl FileNotFoundError | Some ck \<Rightarrow>
     (case load_model h l d ck of Inl e \<Rightarrow> Inl e | Inr model \<Rightarrow>
     (case model X of Inl e \<Rightarrow> Inl e | Inr logits \<Rightarrow>
        (let probs = map sigmoid logits;
             preds = map (\<lambda>p. 1 / 2 \<le> p) probs
         in Inr (Predictions (py_slice (zip probs preds) (Some (- 10)) None)))))))))"

definition predict_main ::
  "(string \<Rightarrow> stamp option) \<Rightarrow> (string \<Rightarrow> fval option) \<Rightarrow>
   (jval \<Rightarrow> jval \<Rightarrow> jval \<Rightarrow> int \<Rightarrow> error + forward) \<Rightarrow>
   int \<Rightarrow> string list option \<Rightarrow> raw_row list \<Rightarrow> world \<Rightarrow> error + printed" where
  "predict_main to_datetime parse_float load_model arg_seq tickers csv w =
     (case meta_json w of None \<Rightarrow> Inl FileNotFoundError | Some meta \<Rightarrow>
     (case scaler_json w of None \<Rightarrow> Inl FileNotFoundError | Some stats \<Rightarrow>
     (case load_dataset to_datetime parse_float csv tickers of Inl e \<Rightarrow> Inl e | Inr df \<Rightarrow>
     (case apply_standardizer df stats of Inl e \<Rightarrow> Inl e | Inr df' \<Rightarrow>
     (case make_sequences_json df' (predict_seq_len meta arg_seq) of
        Inl e \<Rightarrow> Inl e
      | Inr (X, y) \<Rightarrow>
          if X = [] then Inr NoSequences
          else score_sequences load_model meta (model_pt w) X)))))"


section \<open>Reference definitions used in the statements\<close>

text \<open>
  The windows of one ticker group \<open>g\<close> for the window length \<open>S\<close>: one window for
  each start row \<open>i\<close> with \<open>i + S\<close> at most the length of the group, holding the
  feature vectors of rows \<open>i\<close> to \<open>i + S - 1\<close> as float32 numbers, and with it the
  label of row \<open>S - 1 + i\<close> as a float32 number.
\<close>

definition feature_vector :: "row \<Rightarrow> fval list" where
  "feature_vector r = map (\<lambda>c. astype_float32 (feat r c)) FEATURES"

definition expected_windows :: "nat \<Rightarrow> row list \<Rightarrow> window list" where
  "expected_windows S g = map (\<lambda>i. map feature_vector (take S (drop i g))) [0..<length g + 1 - S]"

definition float32_labels :: "row list \<Rightarrow> fval list" where
  "float32_labels g = map (\<lambda>r. astype_float32 (y_up r)) g"

definition expected_labels :: "nat \<Rightarrow> row list \<Rightarrow> fval list" where
  "expected_labels S g =
     map (\<lambda>i. astype_float32 (y_up (g ! (S - 1 + i)))) [0..<length g + 1 - S]"

text \<open>Scenario A: two tickers with 50 rows each.\<close>

definition scenario_A_row :: "string \<Rightarrow> nat \<Rightarrow> row" where
  "scenario_A_row k i =
     \<lparr>ticker = k, date = At (int i), feat = (\<lambda>c. Fin (real i)), y_up = Fin 1\<rparr>"

definition scenario_A :: "row list" where
  "scenario_A = map (scenario_A_row ''AAA'') [0..<50] @ map (scenario_A_row ''BBB'') [0..<50]"

text \<open>
  The order on the sort columns that the specification names: ticker ascending, then date
  ascending, NaT last; and the rows with a given ticker and date.
\<close>

fun stamp_le :: "stamp \<Rightarrow> stamp \<Rightarrow> bool" where
  "stamp_le (At s) (At t) = (s \<le> t)"
| "stamp_le NaT (At t) = False"
| "stamp_le d NaT = True"

definition key_le :: "(stamp, 'c) frame_row \<Rightarrow> (stamp, 'c) frame_row \<Rightarrow> bool" where
  "key_le a b = (ticker a < ticker b \<or> (ticker a = ticker b \<and> stamp_le (date a) (date b)))"

definition same_key :: "string \<Rightarrow> stamp \<Rightarrow> (stamp, 'c) frame_row \<Rightarrow> bool" where
  "same_key k d r = (ticker r = k \<and> date r = d)"

text \<open>
  A small CSV file: five rows out of order, one without a label, two with the same ticker
  and date, some cells that are no numbers; the parsers that read it; and the frame that
  \<open>load_dataset\<close> makes of it.
\<close>

definition example_csv :: "raw_row list" where
  "example_csv =
     [\<lparr>ticker = ''MSFT'', date = ''2024-01-02'', feat = (\<lambda>c. ''1.5''), y_up = Fin 1\<rparr>,
      \<lparr>ticker = ''AAPL'', date = ''2024-01-03'', feat = (\<lambda>c. ''x''), y_up = Fin 0\<rparr>,
      \<lparr>ticker = ''AAPL'', date = ''2024-01-02'', feat = (\<lambda>c. ''1.5''), y_up = Fin 1\<rparr>,
      \<lparr>ticker = ''AAPL'', date = ''2024-01-02'', feat = (\<lambda>c. ''x''), y_up = Fin 0\<rparr>,
      \<lparr>ticker = ''AAPL'', date = ''2024-01-01'', feat = (\<lambda>c. ''1.5''), y_up = NaN\<rparr>]"

definition example_to_datetime :: "string \<Rightarrow> stamp option" where
  "example_to_datetime s =
     (if s = ''2024-01-01'' then Some (At 1) else if s = ''2024-01-02'' then Some (At 2)
      else if s = ''2024-01-03'' then Some (At 3) else if s = [] then Some NaT else None)"

definition example_parse_float :: "string \<Rightarrow> fval option" where
  "example_parse_float s = (if s = ''1.5'' then Some (Fin (3 / 2)) else None)"

definition example_df :: "row list" where
  "example_df =
     [\<lparr>ticker = ''AAPL'', date = At 2, feat = (\<lambda>c. Fin (3 / 2)), y_up = Fin 1\<rparr>,
      \<lparr>ticker = ''AAPL'', date = At 2, feat = (\<lambda>c. NaN), y_up = Fin 0\<rparr>,
      \<lparr>ticker = ''AAPL'', date = At 3, feat = (\<lambda>c. NaN), y_up = Fin 0\<rparr>,
      \<lparr>ticker = ''MSFT'', date = At 2, feat = (\<lambda>c. Fin (3 / 2)), y_up = Fin 1\<rparr>]"

text \<open>
  The z-score of a cell, and the cell that \<open>apply\<close> is to leave in a feature column:
  the z-score, or 0 where the z-score is infinite or missing. Other columns are left as
  they are.
\<close>

definition zscore :: "stat \<Rightarrow> fval \<Rightarrow> fval" where
  "zscore s v = fdiv (fsub v (mean s)) (std s)"

definition expected_cell :: "(string \<rightharpoonup> stat) \<Rightarrow> row \<Rightarrow> string \<Rightarrow> fval" where
  "expected_cell stats r c =
     (case stats c of
        None \<Rightarrow> feat r c
      | Some s \<Rightarrow>
          if c \<in> set FEATURES
          then (if isinf (zscore s (feat r c)) \<or> isnan (zscore s (feat r c)) then Fin 0
                else zscore s (feat r c))
          else feat r c)"

text \<open>Complete statistics, and a row with a finite, a missing and an infinite cell.\<close>

definition example_stats :: "string \<rightharpoonup> stat" where
  "example_stats c = (if c \<in> set FEATURES then Some \<lparr>mean = Fin 1, std = Fin 2\<rparr> else None)"

definition example_cells :: "row list" where
  "example_cells =
     [\<lparr>ticker = ''AAPL'', date = At 1,
       feat = (\<lambda>c. if c = ''close'' then Fin 5 else if c = ''volume'' then NaN
                    else if c = ''ret1'' then PInf else Fin 1),
       y_up = Fin 1\<rparr>]"

text \<open>
  The finite entries of a column, and their mean and population standard deviation as
  real numbers.
\<close>

fun finite_part :: "fval list \<Rightarrow> real list" where
  "finite_part [] = []"
| "finite_part (Fin a # vs) = a # finite_part vs"
| "finite_part (v # vs) = finite_part vs"

definition mean_of :: "real list \<Rightarrow> real" where
  "mean_of xs = sum_list xs / real (length xs)"

definition std_of :: "real list \<Rightarrow> real" where
  "std_of xs = sqrt (sum_list (map (\<lambda>a. (a - mean_of xs)\<^sup>2) xs) / real (length xs))"

text \<open>
  Scenario B: ten rows of one ticker; every feature is 5 in the first seven rows, which
  are the train split, and 7 in the other three.
\<close>

definition scenario_B_row :: "nat \<Rightarrow> row" where
  "scenario_B_row i =
     \<lparr>ticker = ''AAPL'', date = At (int i), feat = (\<lambda>c. if i < 7 then Fin 5 else Fin 7),
      y_up = Fin 1\<rparr>"

definition scenario_B_train :: "row list" where
  "scenario_B_train = map scenario_B_row [0, 1, 2, 3, 4, 5, 6]"

definition scenario_B :: "row list" where
  "scenario_B = scenario_B_train @ map scenario_B_row [7, 8, 9]"

text \<open>
  The example file with other cells in the two rows that the split puts into validation
  and test, and the frame loaded from it; arguments of a training run, and a model
  directory with no files.
\<close>

definition example_csv_mutated :: "raw_row list" where
  "example_csv_mutated =
     [\<lparr>ticker = ''MSFT'', date = ''2024-01-02'', feat = (\<lambda>c. ''x''), y_up = Fin 0\<rparr>,
      \<lparr>ticker = ''AAPL'', date = ''2024-01-03'', feat = (\<lambda>c. ''1.5''), y_up = Fin 1\<rparr>,
      \<lparr>ticker = ''AAPL'', date = ''2024-01-02'', feat = (\<lambda>c. ''1.5''), y_up = Fin 1\<rparr>,
      \<lparr>ticker = ''AAPL'', date = ''2024-01-02'', feat = (\<lambda>c. ''x''), y_up = Fin 0\<rparr>]"

definition example_df_mutated :: "row list" where
  "example_df_mutated =
     [\<lparr>ticker = ''AAPL'', date = At 2, feat = (\<lambda>c. Fin (3 / 2)), y_up = Fin 1\<rparr>,
      \<lparr>ticker = ''AAPL'', date = At 2, feat = (\<lambda>c. NaN), y_up = Fin 0\<rparr>,
      \<lparr>ticker = ''AAPL'', date = At 3, feat = (\<lambda>c. Fin (3 / 2)), y_up = Fin 1\<rparr>,
      \<lparr>ticker = ''MSFT'', date = At 2, feat = (\<lambda>c. NaN), y_up = Fin 0\<rparr>]"

definition example_args :: args where
  "example_args =
     \<lparr>arg_seq_len = 30, arg_hidden = 64, arg_layers = 1, arg_dropout = 1 / 10,
      arg_epochs = 30, arg_patience = 5, arg_tickers = None\<rparr>"

definition empty_world :: world where
  "empty_world = \<lparr>scaler_json = None, model_pt = None, meta_json = None, epochs_trained = 0\<rparr>"

text \<open>Two rows of one ticker, with labels 0 and 1.\<close>

definition two_rows :: "row list" where
  "two_rows =
     [\<lparr>ticker = ''AAPL'', date = At 1, feat = (\<lambda>c. Fin 1), y_up = Fin 0\<rparr>,
      \<lparr>ticker = ''AAPL'', date = At 2, feat = (\<lambda>c. Fin 2), y_up = Fin 1\<rparr>]"

text \<open>
  A model directory after training with \<open>seq_len = 2\<close>, and a classifier that scores
  every window 0.
\<close>

definition trained_world :: world where
  "trained_world =
     \<lparr>scaler_json = Some example_stats, model_pt = Some 1,
      meta_json = Some (meta_of (example_args\<lparr>arg_seq_len := 2\<rparr>) (1 / 2)),
      epochs_trained = 0\<rparr>"

text \<open>The same directory with a \<open>meta.json\<close> that has no \<open>seq_len\<close> entry.\<close>

definition bare_world :: world where
  "bare_world =
     \<lparr>scaler_json = Some example_stats, model_pt = Some 1,
      meta_json = Some [''hidden'' \<mapsto> JInt 64, ''layers'' \<mapsto> JInt 1, ''dropout'' \<mapsto> JNum (1 / 10)],
      epochs_trained = 0\<rparr>"

definition constant_model :: "jval \<Rightarrow> jval \<Rightarrow> jval \<Rightarrow> int \<Rightarrow> error + forward" where
  "constant_model h l d ck = Inr (\<lambda>X. Inr (map (\<lambda>x. 0) X))"

text \<open>A PyTorch that never raises, with validation accuracy 0.5 in every epoch.\<close>

definition calm_torch :: torch where
  "calm_torch =
     \<lparr>t_setup = None, t_train_one = (\<lambda>e. None), t_evaluate = (\<lambda>e. Inr (1 / 2)),
      t_save = (\<lambda>e. None), t_load = (\<lambda>ck. None), t_test = (\<lambda>ck. Inr (1 / 2))\<rparr>"

text \<open>Scenario C: the validation accuracies 0.50, 0.51, 0.51, 0.51, and nothing raises.\<close>

definition scenario_C_torch :: torch where
  "scenario_C_torch =
     \<lparr>t_setup = None, t_train_one = (\<lambda>e. None),
      t_evaluate = (\<lambda>e. Inr (if e = 1 then 50 / 100 else 51 / 100)),
      t_save = (\<lambda>e. None), t_load = (\<lambda>ck. None), t_test = (\<lambda>ck. Inr (1 / 2))\<rparr>"

text \<open>PyTorch raises none of its exceptions with the message of \<open>main\<close>'s own.\<close>

definition torch_foreign :: "torch \<Rightarrow> bool" where
  "torch_foreign T =
     (t_setup T \<noteq> Some not_enough_data
      \<and> (\<forall>k. t_train_one T k \<noteq> Some not_enough_data
             \<and> t_evaluate T k \<noteq> Inl not_enough_data
             \<and> t_save T k \<noteq> Some not_enough_data
             \<and> t_load T k \<noteq> Some not_enough_data
             \<and> t_test T k \<noteq> Inl not_enough_data))"

text \<open>A row whose features are all \<open>2^24 + 1\<close>, which is no float32 number.\<close>

definition wide_row :: row where
  "wide_row = \<lparr>ticker = ''AAPL'', date = At 1, feat = (\<lambda>c. Fin 16777217), y_up = Fin 1\<rparr>"

section \<open>Rounding\<close>

text \<open>
  Rounding is monotone, it keeps the numbers of the format, and within a known binade it
  is a rounding of the scaled number to an integer.
\<close>

lemma rne_of_int [simp]: "rne (of_int n) = n"
  by (simp add: rne_def)

lemma rne_zero [simp]: "rne 0 = 0"
  using rne_of_int [of 0] by simp

lemma rne_pow2 [simp]: "rne (2 ^ n) = 2 ^ n"
  using rne_of_int [of "2 ^ n"] by simp

lemma rne_mono: "r \<le> s \<Longrightarrow> rne r \<le> rne s"
proof -
  assume rs: "r \<le> s"
  have f: "\<lfloor>r\<rfloor> \<le> \<lfloor>s\<rfloor>" using rs by (rule floor_mono)
  have up: "rne r \<le> \<lfloor>r\<rfloor> + 1" by (simp add: rne_def)
  have lo: "\<lfloor>s\<rfloor> \<le> rne s" by (simp add: rne_def)
  show ?thesis
  proof (cases "\<lfloor>r\<rfloor> = \<lfloor>s\<rfloor>")
    case True
    then show ?thesis using rs by (auto simp add: rne_def)
  next
    case False
    then have "\<lfloor>r\<rfloor> + 1 \<le> \<lfloor>s\<rfloor>" using f by simp
    then show ?thesis using up lo by linarith
  qed
qed

lemma floor_log2_bounds:
  assumes "x \<noteq> 0"
  shows "2 powi \<lfloor>log 2 \<bar>x\<bar>\<rfloor> \<le> \<bar>x\<bar>" and "\<bar>x\<bar> < 2 powi (\<lfloor>log 2 \<bar>x\<bar>\<rfloor> + 1)"
proof -
  have pos: "0 < \<bar>x\<bar>" using assms by simp
  have "2 powr (of_int \<lfloor>log 2 \<bar>x\<bar>\<rfloor>) \<le> \<bar>x\<bar> \<and> \<bar>x\<bar> < 2 powr (of_int \<lfloor>log 2 \<bar>x\<bar>\<rfloor> + 1)"
    using floor_log_eq_powr_iff [of "\<bar>x\<bar>" 2 "\<lfloor>log 2 \<bar>x\<bar>\<rfloor>"] pos by simp
  then show "2 powi \<lfloor>log 2 \<bar>x\<bar>\<rfloor> \<le> \<bar>x\<bar>" and "\<bar>x\<bar> < 2 powi (\<lfloor>log 2 \<bar>x\<bar>\<rfloor> + 1)"
    using powr_real_of_int' [of 2 "\<lfloor>log 2 \<bar>x\<bar>\<rfloor>"] powr_real_of_int' [of 2 "\<lfloor>log 2 \<bar>x\<bar>\<rfloor> + 1"]
    by simp_all
qed

lemma floor_log2_eqI:
  assumes "2 powi e \<le> \<bar>x\<bar>" and "\<bar>x\<bar> < 2 powi (e + 1)"
  shows "\<lfloor>log 2 \<bar>x\<bar>\<rfloor> = e"
proof -
  have "0 < (2::real) powi e" by simp
  then have pos: "0 < \<bar>x\<bar>" using assms(1) by linarith
  have "2 powr (of_int e) \<le> \<bar>x\<bar> \<and> \<bar>x\<bar> < 2 powr (of_int e + 1)"
    using assms powr_real_of_int' [of 2 e] powr_real_of_int' [of 2 "e + 1"] by simp
  then show ?thesis
    using floor_log_eq_powr_iff [of "\<bar>x\<bar>" 2 e] pos by simp
qed


lemma pow2_split: "(2::real) powi (a + b) = 2 powi a * 2 powi b"
  by (simp add: power_int_add)

lemma pow2_diff: "(2::real) powi (a - b) = 2 powi a / 2 powi b"
  by (simp add: power_int_diff)

lemma pow2_nat: "0 \<le> j \<Longrightarrow> (2::real) powi j = 2 ^ nat j"
  by (simp add: power_int_def)

lemma quantum_pos: "0 < quantum p emin x"
  by (simp add: quantum_def)

lemma quantum_eval:
  assumes "2 powi e \<le> \<bar>x\<bar>" and "\<bar>x\<bar> < 2 powi (e + 1)" and "emin \<le> e"
  shows "quantum p emin x = 2 powi (e - p + 1)"
  using floor_log2_eqI [OF assms(1,2)] assms(3) by (simp add: quantum_def max_def)

lemma round_to_eval:
  assumes "2 powi e \<le> \<bar>x\<bar>" and "\<bar>x\<bar> < 2 powi (e + 1)" and "emin \<le> e"
  shows "round_to p emin x = of_int (rne (x / 2 powi (e - p + 1))) * 2 powi (e - p + 1)"
proof -
  have "0 < (2::real) powi e" by simp
  then have "0 < \<bar>x\<bar>" using assms(1) by linarith
  then have "x \<noteq> 0" by simp
  then show ?thesis by (simp add: round_to_def quantum_eval [OF assms])
qed

text \<open>The rounding of a positive number stays within its binade.\<close>

lemma round_to_upper:
  assumes "0 < x" and "1 \<le> p"
  shows "round_to p emin x \<le> 2 powi (max emin \<lfloor>log 2 \<bar>x\<bar>\<rfloor> + 1)"
proof -
  let ?e = "max emin \<lfloor>log 2 \<bar>x\<bar>\<rfloor>"
  let ?q = "quantum p emin x"
  have q: "?q = 2 powi (?e - p + 1)" by (simp add: quantum_def)
  have pp: "(2::real) ^ nat p = 2 powi p" using assms(2) by (simp add: pow2_nat)
  have top: "(2::real) powi p * ?q = 2 powi (?e + 1)"
    unfolding q by (simp flip: pow2_split)
  have "x < 2 powi (\<lfloor>log 2 \<bar>x\<bar>\<rfloor> + 1)" using floor_log2_bounds(2) [of x] assms(1) by simp
  also have "\<dots> \<le> 2 powi (?e + 1)" by (intro power_int_increasing) simp_all
  finally have "x < 2 powi p * ?q" by (simp only: top)
  then have "x / ?q < 2 powi p"
    using quantum_pos [of p emin x] by (simp add: pos_divide_less_eq)
  then have "x / ?q \<le> 2 ^ nat p" by (simp add: pp)
  then have "rne (x / ?q) \<le> rne (2 ^ nat p)" by (rule rne_mono)
  then have "rne (x / ?q) \<le> 2 ^ nat p" by simp
  then have "(of_int (rne (x / ?q)) :: real) \<le> of_int (2 ^ nat p)"
    by (simp only: of_int_le_iff)
  then have "(of_int (rne (x / ?q)) :: real) \<le> 2 powi p" by (simp add: pp)
  then have "of_int (rne (x / ?q)) * ?q \<le> 2 powi p * ?q"
    using quantum_pos [of p emin x] by (simp add: mult_right_mono)
  then show ?thesis using assms(1) by (simp only: top) (simp add: round_to_def)
qed

lemma round_to_lower:
  assumes "0 < x" and "1 \<le> p" and "emin \<le> \<lfloor>log 2 \<bar>x\<bar>\<rfloor>"
  shows "2 powi \<lfloor>log 2 \<bar>x\<bar>\<rfloor> \<le> round_to p emin x"
proof -
  let ?e = "\<lfloor>log 2 \<bar>x\<bar>\<rfloor>"
  let ?q = "quantum p emin x"
  have q: "?q = 2 powi (?e - p + 1)" using assms(3) by (simp add: quantum_def max_def)
  have pp: "(2::real) ^ nat (p - 1) = 2 powi (p - 1)" using assms(2) by (simp add: pow2_nat)
  have split: "(2::real) powi (p - 1) * ?q = 2 powi ?e"
    unfolding q by (simp flip: pow2_split)
  have "2 powi ?e \<le> x" using floor_log2_bounds(1) [of x] assms(1) by simp
  then have "2 powi (p - 1) * ?q \<le> x" by (simp only: split)
  then have "2 powi (p - 1) \<le> x / ?q"
    using quantum_pos [of p emin x] by (simp add: pos_le_divide_eq)
  then have "2 ^ nat (p - 1) \<le> x / ?q" by (simp add: pp)
  then have "rne (2 ^ nat (p - 1)) \<le> rne (x / ?q)" by (rule rne_mono)
  then have "2 ^ nat (p - 1) \<le> rne (x / ?q)" by simp
  then have "(of_int (2 ^ nat (p - 1)) :: real) \<le> of_int (rne (x / ?q))"
    by (simp only: of_int_le_iff)
  then have "(2::real) powi (p - 1) \<le> of_int (rne (x / ?q))" by (simp add: pp)
  then have "2 powi (p - 1) * ?q \<le> of_int (rne (x / ?q)) * ?q"
    using quantum_pos [of p emin x] by (simp add: mult_right_mono)
  then show ?thesis using assms(1) by (simp only: split) (simp add: round_to_def)
qed

lemma round_to_nonneg: "0 \<le> x \<Longrightarrow> 0 \<le> round_to p emin x"
proof -
  assume x: "0 \<le> x"
  have "0 \<le> x / quantum p emin x" using x quantum_pos [of p emin x] by simp
  then have "0 \<le> rne (x / quantum p emin x)"
    using rne_mono [of "of_int 0" "x / quantum p emin x"] by simp
  then show ?thesis using quantum_pos [of p emin x] by (simp add: round_to_def)
qed

lemma round_to_mono:
  assumes "0 \<le> x" and "x \<le> y" and "1 \<le> p"
  shows "round_to p emin x \<le> round_to p emin y"
proof (cases "x = 0")
  case True
  then show ?thesis using round_to_nonneg [of y p emin] assms by (simp add: round_to_def)
next
  case False
  then have x: "0 < x" and y: "0 < y" using assms by simp_all
  let ?ex = "max emin \<lfloor>log 2 \<bar>x\<bar>\<rfloor>" and ?ey = "max emin \<lfloor>log 2 \<bar>y\<bar>\<rfloor>"
  have "log 2 \<bar>x\<bar> \<le> log 2 \<bar>y\<bar>" using x y assms(2) by simp
  then have "\<lfloor>log 2 \<bar>x\<bar>\<rfloor> \<le> \<lfloor>log 2 \<bar>y\<bar>\<rfloor>" by (rule floor_mono)
  then have le: "?ex \<le> ?ey" by (intro max.mono) simp_all
  show ?thesis
  proof (cases "?ex = ?ey")
    case True
    then have q: "quantum p emin x = quantum p emin y" by (simp add: quantum_def)
    have "x / quantum p emin y \<le> y / quantum p emin y"
      using assms(2) quantum_pos [of p emin y] by (simp add: divide_right_mono)
    then have "rne (x / quantum p emin y) \<le> rne (y / quantum p emin y)" by (rule rne_mono)
    then have "(of_int (rne (x / quantum p emin y)) :: real) \<le> of_int (rne (y / quantum p emin y))"
      by (simp only: of_int_le_iff)
    then show ?thesis
      using x y quantum_pos [of p emin y] by (simp add: round_to_def q mult_right_mono)
  next
    case False
    with le have lt: "?ex + 1 \<le> ?ey" by linarith
    have "emin \<le> ?ex" by simp
    with lt have "emin < ?ey" by linarith
    then have un: "emin \<le> \<lfloor>log 2 \<bar>y\<bar>\<rfloor>" and ey: "?ey = \<lfloor>log 2 \<bar>y\<bar>\<rfloor>"
      by (simp_all add: max_def split: if_splits)
    have "round_to p emin x \<le> 2 powi (?ex + 1)" by (rule round_to_upper [OF x assms(3)])
    also have "\<dots> \<le> 2 powi ?ey" using lt by (intro power_int_increasing) simp_all
    also have "\<dots> \<le> round_to p emin y"
      unfolding ey by (rule round_to_lower [OF y assms(3) un])
    finally show ?thesis .
  qed
qed


lemma scaled_int_bound:
  assumes "\<bar>m\<bar> < 2 ^ nat p" and "1 \<le> p"
  shows "\<bar>of_int m * 2 powi k\<bar> < (2::real) powi (p + k)"
proof -
  have pp: "(2::real) ^ nat p = 2 powi p" using assms(2) by (simp add: pow2_nat)
  have "real_of_int \<bar>m\<bar> < real_of_int (2 ^ nat p)"
    using assms(1) by (simp only: of_int_less_iff)
  then have "real_of_int \<bar>m\<bar> < 2 powi p" by (simp add: pp)
  then have "real_of_int \<bar>m\<bar> * 2 powi k < 2 powi p * 2 powi k"
    by (rule mult_strict_right_mono) simp
  then show ?thesis by (simp add: abs_mult pow2_split)
qed

lemma round_to_exact:
  assumes "x = of_int m * 2 powi k" and "\<bar>m\<bar> < 2 ^ nat p" and "1 \<le> p" and "emin - p + 1 \<le> k"
  shows "round_to p emin x = x"
proof (cases "x = 0")
  case True
  then show ?thesis by (simp add: round_to_def)
next
  case False
  let ?e = "\<lfloor>log 2 \<bar>x\<bar>\<rfloor>"
  let ?e' = "max emin ?e"
  define Q where "Q = quantum p emin x"
  have Qpos: "0 < Q" unfolding Q_def by (rule quantum_pos)
  have ub: "\<bar>x\<bar> < 2 powi (p + k)"
    unfolding assms(1) by (rule scaled_int_bound [OF assms(2,3)])
  have "2 powi ?e \<le> \<bar>x\<bar>" by (rule floor_log2_bounds(1) [OF False])
  with ub have lt: "(2::real) powi ?e < 2 powi (p + k)" by linarith
  have "?e < p + k"
  proof (rule ccontr)
    assume "\<not> ?e < p + k"
    then have "p + k \<le> ?e" by simp
    then have "(2::real) powi (p + k) \<le> 2 powi ?e" by (intro power_int_increasing) simp_all
    with lt show False by linarith
  qed
  then have j0: "0 \<le> k - (?e' - p + 1)" using assms(4) by simp
  define j where "j = k - (?e' - p + 1)"
  have Q: "Q = 2 powi (?e' - p + 1)" by (simp add: Q_def quantum_def)
  have "k = j + (?e' - p + 1)" by (simp add: j_def)
  then have "(2::real) powi k = 2 powi j * 2 powi (?e' - p + 1)"
    by (simp only: pow2_split)
  then have kq: "(2::real) powi k = 2 powi j * Q" by (simp only: Q)
  have pj: "(2::real) powi j = of_int (2 ^ nat j)" using j0 by (simp add: pow2_nat j_def)
  have "x = of_int m * (of_int (2 ^ nat j) * Q)" by (simp only: assms(1) kq pj)
  then have x: "x = of_int (m * 2 ^ nat j) * Q" by (simp only: of_int_mult mult.assoc)
  then have "x / Q = of_int (m * 2 ^ nat j)" using Qpos by (simp only: nonzero_mult_div_cancel_right less_imp_neq [OF Qpos, symmetric] not_False_eq_True)
  then have "rne (x / Q) = m * 2 ^ nat j" by (simp only: rne_of_int)
  then have "of_int (rne (x / Q)) * Q = x" by (simp only: x [symmetric])
  then show ?thesis using False by (simp only: round_to_def Q_def if_False)
qed

lemma round_binary_exact:
  assumes "x = of_int m * 2 powi k" and "\<bar>m\<bar> < 2 ^ nat p" and "1 \<le> p" and "emin - p + 1 \<le> k"
    and "p + k \<le> emax + 1"
  shows "round_binary p emin emax x = Fin x"
proof -
  have "\<bar>x\<bar> < 2 powi (p + k)"
    unfolding assms(1) by (rule scaled_int_bound [OF assms(2,3)])
  moreover have "(2::real) powi (p + k) \<le> 2 powi (emax + 1)"
    using assms(5) by (intro power_int_increasing) simp_all
  ultimately have "\<not> 2 powi (emax + 1) \<le> \<bar>x\<bar>" by linarith
  then show ?thesis
    by (simp add: round_binary_def round_to_exact [OF assms(1-4)])
qed

lemma round_binary_mono:
  assumes "0 \<le> x" and "x \<le> y" and "1 \<le> p" and "round_binary p emin emax y = Fin b"
  shows "\<exists>a. round_binary p emin emax x = Fin a \<and> 0 \<le> a \<and> a \<le> b"
proof -
  have b: "b = round_to p emin y" and nb: "\<not> 2 powi (emax + 1) \<le> \<bar>round_to p emin y\<bar>"
    using assms(4) by (simp_all add: round_binary_def Let_def split: if_splits)
  have a0: "0 \<le> round_to p emin x" by (rule round_to_nonneg [OF assms(1)])
  have ab: "round_to p emin x \<le> round_to p emin y" by (rule round_to_mono [OF assms(1-3)])
  have "\<not> 2 powi (emax + 1) \<le> \<bar>round_to p emin x\<bar>" using a0 ab nb by linarith
  then have "round_binary p emin emax x = Fin (round_to p emin x)"
    by (simp add: round_binary_def)
  then show ?thesis using a0 ab b by simp
qed

lemma round_binary_eval:
  assumes "0 < x" and "2 powi e \<le> x" and "x < 2 powi (e + 1)" and "emin \<le> e" and "e < emax"
    and "1 \<le> p"
  shows "round_binary p emin emax x
         = Fin (of_int (rne (x / 2 powi (e - p + 1))) * 2 powi (e - p + 1))"
proof -
  have ax: "\<bar>x\<bar> = x" using assms(1) by simp
  have fl: "\<lfloor>log 2 \<bar>x\<bar>\<rfloor> = e" using floor_log2_eqI [of e x] assms(2,3) ax by simp
  have ev: "round_to p emin x = of_int (rne (x / 2 powi (e - p + 1))) * 2 powi (e - p + 1)"
    using round_to_eval [of e x emin p] assms(2,3,4) ax by simp
  have "round_to p emin x \<le> 2 powi (e + 1)"
    using round_to_upper [OF assms(1,6), of emin] fl assms(4) by (simp add: max_def)
  also have "\<dots> < 2 powi (emax + 1)"
    using assms(5) by (intro power_int_strict_increasing) simp_all
  finally have "\<not> 2 powi (emax + 1) \<le> \<bar>round_to p emin x\<bar>"
    using round_to_nonneg [of x p emin] assms(1) by simp
  then show ?thesis by (simp add: round_binary_def ev)
qed

lemma float64_nat:
  assumes "n < 2 ^ 53"
  shows "float64 (real n) = Fin (real n)"
proof -
  have "int n < 2 ^ 53" using assms by simp
  then have m: "\<bar>int n\<bar> < 2 ^ nat 53" by simp
  have x: "real n = of_int (int n) * 2 powi 0" by simp
  show ?thesis
    unfolding float64_def by (rule round_binary_exact [OF x m]) simp_all
qed

text \<open>The literals \<open>0.7\<close> and \<open>0.15\<close> of the training program, and their float sum.\<close>

lemma float64_070: "float64 (7 / 10) = Fin (6305039478318694 / 2 ^ 53)"
  unfolding float64_def
  by (subst round_binary_eval [where e = "- 1"]) (simp_all add: rne_def)

lemma float64_015: "float64 (15 / 100) = Fin (5404319552844595 / 2 ^ 55)"
  unfolding float64_def
  by (subst round_binary_eval [where e = "- 3"]) (simp_all add: rne_def)

section \<open>Early stopping\<close>

lemma upto_first_four: "4 \<le> n \<Longrightarrow> [1..n] = 1 # 2 # 3 # 4 # [5..n]"
  by (simp add: upto_rec1)

text \<open>
  C1 (as the code has it). With patience 2 and the validation accuracies 0.50, 0.51, 0.51,
  0.51 in epochs 1 to 4, and no exception out of the training passes of these epochs and
  the checkpoint writes of epochs 1 and 2, epochs 1 and 2 both improve on the best accuracy by more than the margin (the best
  accuracy starts at 0), so the checkpoint of epoch 2 is the last one saved and the
  patience is full again after epoch 2. Epochs 3 and 4 do not improve; the patience
  reaches 0 in epoch 4, and the loop is left there by \<open>break\<close>, after four training
  passes, whatever the epoch budget from 4 on.
\<close>

theorem train_loop_scenario_C:
  assumes "t_evaluate T 1 = Inr (50 / 100)" and "t_evaluate T 2 = Inr (51 / 100)"
    and "t_evaluate T 3 = Inr (51 / 100)" and "t_evaluate T 4 = Inr (51 / 100)"
    and "t_train_one T 1 = None" and "t_train_one T 2 = None"
    and "t_train_one T 3 = None" and "t_train_one T 4 = None"
    and "t_save T 1 = None" and "t_save T 2 = None"
    and "4 \<le> epochs"
  shows "train_loop T 2 (py_range 1 (epochs + 1))
           \<lparr>best_val_acc = 0, patience_left = 2, wld = w, broke = False\<rparr>
         = (None,
            \<lparr>best_val_acc = 51 / 100, patience_left = 0,
             wld = w\<lparr>model_pt := Some 2, epochs_trained := epochs_trained w + 4\<rparr>,
             broke = True\<rparr>)"
proof -
  have "py_range 1 (epochs + 1) = 1 # 2 # 3 # 4 # [5..epochs]"
    using assms(11) by (simp add: py_range_def upto_first_four)
  then show ?thesis
    using assms(1-10) by (simp add: Let_def)
qed

text \<open>The run of the scenario with the default budget of 30 epochs.\<close>

theorem train_loop_scenario_C_witness:
  "train_loop scenario_C_torch 2 (py_range 1 (30 + 1))
     \<lparr>best_val_acc = 0, patience_left = 2,
      wld = \<lparr>scaler_json = None, model_pt = None, meta_json = None, epochs_trained = 0\<rparr>,
      broke = False\<rparr>
   = (None,
      \<lparr>best_val_acc = 51 / 100, patience_left = 0,
       wld = \<lparr>scaler_json = None, model_pt = Some 2, meta_json = None, epochs_trained = 4\<rparr>,
       broke = True\<rparr>)"
  using train_loop_scenario_C [of scenario_C_torch 30
      "\<lparr>scaler_json = None, model_pt = None, meta_json = None, epochs_trained = 0\<rparr>"]
  by (simp add: scenario_C_torch_def)

text \<open>
  The run of the scenario with a budget of exactly the four epochs listed: the loop is
  left by \<open>break\<close> in epoch 4, not after epoch 3.
\<close>

theorem train_loop_scenario_C_not_epoch_3:
  "(let st = snd (train_loop scenario_C_torch 2 (py_range 1 (4 + 1))
                   \<lparr>best_val_acc = 0, patience_left = 2,
                    wld = \<lparr>scaler_json = None, model_pt = None, meta_json = None,
                           epochs_trained = 0\<rparr>,
                    broke = False\<rparr>)
    in broke st \<and> epochs_trained (wld st) = 4 \<and> epochs_trained (wld st) \<noteq> 3)"
  by (simp add: py_range_def upto_rec1 Let_def scenario_C_torch_def)

section \<open>Slices and the time split\<close>

lemma py_slice_prefix: "0 \<le> c \<Longrightarrow> py_slice xs None (Some c) = take (nat c) xs"
  by (simp add: py_slice_def slice_index_def min_def Let_def)

lemma py_slice_suffix: "0 \<le> c \<Longrightarrow> py_slice xs (Some c) None = drop (nat c) xs"
  by (simp add: py_slice_def slice_index_def min_def Let_def)

lemma py_slice_middle:
  "0 \<le> a \<Longrightarrow> a \<le> b \<Longrightarrow> py_slice xs (Some a) (Some b) = take (nat b - nat a) (drop (nat a) xs)"
  by (auto simp add: py_slice_def slice_index_def min_def Let_def)

lemma take_mid_drop: "a \<le> b \<Longrightarrow> take a xs @ take (b - a) (drop a xs) @ drop b xs = xs"
proof -
  assume "a \<le> b"
  then have "take (b - a) (drop a xs) @ drop b xs = drop a xs"
    by (metis add_diff_inverse_nat append_take_drop_id drop_drop le_imp_less_Suc not_less_eq add.commute)
  then show ?thesis by simp
qed

text \<open>The split, once the three float operations are known.\<close>

lemma time_split_eval:
  assumes "float64 (real (length df)) = Fin n" and "float64 (n * a) = Fin y1"
    and "float64 (a + b) = Fin s" and "float64 (n * s) = Fin y2"
  shows "time_split df (Fin a) (Fin b)
         = Inr (py_slice df None (Some (py_int y1)),
                py_slice df (Some (py_int y1)) (Some (py_int y2)),
                py_slice df (Some (py_int y2)) None)"
  using assms by (simp add: time_split_def float_of_int_def int_of_float_def dmul_def dadd_def)

lemma float64_one: "float64 1 = Fin 1"
  using float64_nat [of 1] by simp

lemma float64_sum: "float64 (6305039478318694 / 2 ^ 53 + 5404319552844595 / 2 ^ 55)
                    = Fin (7656119366529843 / 2 ^ 53)"
  unfolding float64_def
  by (subst round_binary_eval [where e = "- 1"]) (simp_all add: rne_def)

lemma float64_train_4: "float64 (4 * (6305039478318694 / 2 ^ 53)) = Fin (3152519739159347 / 2 ^ 50)"
  unfolding float64_def
  by (subst round_binary_eval [where e = "1"]) (simp_all add: rne_def)

lemma float64_val_4: "float64 (4 * (7656119366529843 / 2 ^ 53)) = Fin (7656119366529843 / 2 ^ 51)"
  unfolding float64_def
  by (subst round_binary_eval [where e = "1"]) (simp_all add: rne_def)

lemma float64_train_10: "float64 (10 * (6305039478318694 / 2 ^ 53)) = Fin 7"
  unfolding float64_def
  by (subst round_binary_eval [where e = "2"]) (simp_all add: rne_def)

lemma float64_val_10: "float64 (10 * (7656119366529843 / 2 ^ 53)) = Fin (17 / 2)"
  unfolding float64_def
  by (subst round_binary_eval [where e = "3"]) (simp_all add: rne_def)

lemma float64_train_90:
  "float64 (90 * (6305039478318694 / 2 ^ 53)) = Fin (8866461766385663 / 2 ^ 47)"
  unfolding float64_def
  by (subst round_binary_eval [where e = "5"]) (simp_all add: rne_def)

lemma float64_val_90: "float64 (90 * (7656119366529843 / 2 ^ 53)) = Fin (153 / 2)"
  unfolding float64_def
  by (subst round_binary_eval [where e = "6"]) (simp_all add: rne_def)

text \<open>The split of the training program for 4, 10 and 90 rows.\<close>

lemma time_split_main_4:
  assumes "length df = 4"
  shows "time_split df (float64 (7 / 10)) (float64 (15 / 100))
         = Inr (take 2 df, take 1 (drop 2 df), drop 3 df)"
proof -
  have n: "float64 (real (length df)) = Fin 4"
    using float64_nat [of 4] assms by simp
  have i1: "py_int (3152519739159347 / 2 ^ 50) = 2" by (simp add: py_int_def)
  have i2: "py_int (7656119366529843 / 2 ^ 51) = 3" by (simp add: py_int_def)
  show ?thesis
    unfolding float64_070 float64_015
    by (simp only: time_split_eval [OF n float64_train_4 float64_sum float64_val_4] i1 i2)
       (simp add: py_slice_prefix py_slice_suffix py_slice_middle)
qed

lemma time_split_main_10:
  assumes "length df = 10"
  shows "time_split df (float64 (7 / 10)) (float64 (15 / 100))
         = Inr (take 7 df, take 1 (drop 7 df), drop 8 df)"
proof -
  have n: "float64 (real (length df)) = Fin 10"
    using float64_nat [of 10] assms by simp
  have i1: "py_int 7 = 7" by (simp add: py_int_def)
  have i2: "py_int (17 / 2) = 8" by (simp add: py_int_def)
  show ?thesis
    unfolding float64_070 float64_015
    by (simp only: time_split_eval [OF n float64_train_10 float64_sum float64_val_10] i1 i2)
       (simp add: py_slice_prefix py_slice_suffix py_slice_middle)
qed

lemma time_split_main_90:
  assumes "length df = 90"
  shows "time_split df (float64 (7 / 10)) (float64 (15 / 100))
         = Inr (take 62 df, take 14 (drop 62 df), drop 76 df)"
proof -
  have n: "float64 (real (length df)) = Fin 90"
    using float64_nat [of 90] assms by simp
  have i1: "py_int (8866461766385663 / 2 ^ 47) = 62" by (simp add: py_int_def)
  have i2: "py_int (153 / 2) = 76" by (simp add: py_int_def)
  show ?thesis
    unfolding float64_070 float64_015
    by (simp only: time_split_eval [OF n float64_train_90 float64_sum float64_val_90] i1 i2)
       (simp add: py_slice_prefix py_slice_suffix py_slice_middle)
qed

text \<open>
  For positive float fractions with a sum below 1 and fewer than \<open>2^53\<close> rows the two
  cuts lie between 0 and the row count, in order, and the split is made there.
\<close>

lemma time_split_cuts:
  assumes "float64 train_frac = Fin train_frac" and "float64 val_frac = Fin val_frac"
    and "0 < train_frac" and "0 < val_frac" and "train_frac + val_frac < 1"
    and "length df < 2 ^ 53"
  shows "\<exists>cut1 cut2.
           int_of_float (dmul (Fin (real (length df))) (Fin train_frac)) = Inr (int cut1)
           \<and> int_of_float (dmul (Fin (real (length df))) (dadd (Fin train_frac) (Fin val_frac)))
               = Inr (int cut2)
           \<and> cut1 \<le> cut2 \<and> cut2 \<le> length df
           \<and> time_split df (Fin train_frac) (Fin val_frac)
               = Inr (take cut1 df, take (cut2 - cut1) (drop cut1 df), drop cut2 df)
           \<and> take cut1 df @ take (cut2 - cut1) (drop cut1 df) @ drop cut2 df = df
           \<and> length (take cut1 df) = cut1
           \<and> length (take (cut2 - cut1) (drop cut1 df)) = cut2 - cut1
           \<and> length (drop cut2 df) = length df - cut2
           \<and> cut1 + (cut2 - cut1) + (length df - cut2) = length df"
proof -
  define N where "N = real (length df)"
  have N0: "0 \<le> N" by (simp add: N_def)
  have fN: "float64 N = Fin N" unfolding N_def by (rule float64_nat [OF assms(6)])
  have p: "(1::int) \<le> 53" by simp
  have "\<exists>s. float64 (train_frac + val_frac) = Fin s \<and> 0 \<le> s \<and> s \<le> 1"
    unfolding float64_def
    by (rule round_binary_mono [OF _ _ p float64_one [unfolded float64_def]])
       (use assms(3-5) in simp_all)
  then obtain s where s: "float64 (train_frac + val_frac) = Fin s" and s1: "s \<le> 1" by blast
  have "\<exists>a. float64 train_frac = Fin a \<and> 0 \<le> a \<and> a \<le> s"
    unfolding float64_def
    by (rule round_binary_mono [OF _ _ p s [unfolded float64_def]]) (use assms(3,4) in simp_all)
  then have as: "train_frac \<le> s" using assms(1) by auto
  have "N * s \<le> N" using N0 s1 by (simp add: mult_left_le)
  moreover have "0 \<le> N * s" using N0 as assms(3) by simp
  ultimately have "\<exists>y. float64 (N * s) = Fin y \<and> 0 \<le> y \<and> y \<le> N"
    unfolding float64_def
    by (intro round_binary_mono [OF _ _ p fN [unfolded float64_def]])
  then obtain y2 where y2: "float64 (N * s) = Fin y2" and y2N: "y2 \<le> N" by blast
  have "N * train_frac \<le> N * s" using N0 as by (simp add: mult_left_mono)
  moreover have "0 \<le> N * train_frac" using N0 assms(3) by simp
  ultimately have "\<exists>y. float64 (N * train_frac) = Fin y \<and> 0 \<le> y \<and> y \<le> y2"
    unfolding float64_def
    by (intro round_binary_mono [OF _ _ p y2 [unfolded float64_def]])
  then obtain y1 where y1: "float64 (N * train_frac) = Fin y1" and y10: "0 \<le> y1"
    and y12: "y1 \<le> y2" by blast
  define cut1 where "cut1 = nat \<lfloor>y1\<rfloor>"
  define cut2 where "cut2 = nat \<lfloor>y2\<rfloor>"
  have f1: "0 \<le> \<lfloor>y1\<rfloor>" using y10 by simp
  have f12: "\<lfloor>y1\<rfloor> \<le> \<lfloor>y2\<rfloor>" using y12 by (rule floor_mono)
  have f2N: "\<lfloor>y2\<rfloor> \<le> int (length df)" using y2N by (simp add: floor_le_iff N_def)
  have i1: "py_int y1 = int cut1" using y10 f1 by (simp add: py_int_def cut1_def)
  have i2: "py_int y2 = int cut2" using y10 y12 f1 f12 by (simp add: py_int_def cut2_def)
  have c12: "cut1 \<le> cut2" using f12 by (simp add: cut1_def cut2_def)
  have c2N: "cut2 \<le> length df" using f2N by (simp add: cut2_def)
  have m1: "int_of_float (dmul (Fin (real (length df))) (Fin train_frac)) = Inr (int cut1)"
    using y1 i1 by (simp add: int_of_float_def dmul_def N_def)
  have m2: "int_of_float (dmul (Fin (real (length df))) (dadd (Fin train_frac) (Fin val_frac)))
            = Inr (int cut2)"
    using y2 s i2 by (simp add: int_of_float_def dmul_def dadd_def N_def)
  have split: "time_split df (Fin train_frac) (Fin val_frac)
               = Inr (take cut1 df, take (cut2 - cut1) (drop cut1 df), drop cut2 df)"
    using c12
    by (simp add: time_split_eval [OF fN [unfolded N_def] y1 [unfolded N_def] s y2 [unfolded N_def]]
          i1 i2 py_slice_prefix py_slice_suffix py_slice_middle)
  show ?thesis
    using m1 m2 c12 c2N split take_mid_drop [OF c12, of df] by (intro exI [of _ cut1] exI [of _ cut2]) simp
qed

text \<open>
  C3 (as the code has it). The fractions are floats, and so are the two products and the
  sum: \<open>cut1\<close> is \<open>int\<close> of the float product of \<open>N\<close> and \<open>train_frac\<close>,
  \<open>cut2\<close> is \<open>int\<close> of the float product of \<open>N\<close> and the float sum of the two
  fractions. For positive fractions whose sum is below 1 and fewer than \<open>2^53\<close> rows
  \<open>time_split\<close> returns, the cuts satisfy \<open>0 \<le> cut1 \<le> cut2 \<le> N\<close>, train is
  rows \<open>[0, cut1)\<close>, validation rows \<open>[cut1, cut2)\<close>, test rows \<open>[cut2, N)\<close>. The
  three slices in this order make up the data set again (contiguous, in order, without
  overlap), their lengths are \<open>cut1\<close>, \<open>cut2 - cut1\<close> and \<open>N - cut2\<close>, which sum
  to \<open>N\<close>, and the cuts depend on \<open>N\<close> and the fractions only.
\<close>

theorem time_split_contract:
  assumes "float64 train_frac = Fin train_frac" and "float64 val_frac = Fin val_frac"
    and "0 < train_frac" and "0 < val_frac" and "train_frac + val_frac < 1"
    and "length df < 2 ^ 53"
  shows "\<exists>cut1 cut2.
           int_of_float (dmul (Fin (real (length df))) (Fin train_frac)) = Inr (int cut1)
           \<and> int_of_float (dmul (Fin (real (length df))) (dadd (Fin train_frac) (Fin val_frac)))
               = Inr (int cut2)
           \<and> cut1 \<le> cut2 \<and> cut2 \<le> length df
           \<and> time_split df (Fin train_frac) (Fin val_frac)
               = Inr (take cut1 df, take (cut2 - cut1) (drop cut1 df), drop cut2 df)
           \<and> take cut1 df @ take (cut2 - cut1) (drop cut1 df) @ drop cut2 df = df
           \<and> length (take cut1 df) = cut1
           \<and> length (take (cut2 - cut1) (drop cut1 df)) = cut2 - cut1
           \<and> length (drop cut2 df) = length df - cut2
           \<and> cut1 + (cut2 - cut1) + (length df - cut2) = length df"
  using assms by (rule time_split_cuts)

lemma float64_070_fixed:
  "float64 (6305039478318694 / 2 ^ 53) = Fin (6305039478318694 / 2 ^ 53)"
  unfolding float64_def
  by (rule round_binary_exact [where m = 6305039478318694 and k = "- 53"]) simp_all

lemma float64_015_fixed:
  "float64 (5404319552844595 / 2 ^ 55) = Fin (5404319552844595 / 2 ^ 55)"
  unfolding float64_def
  by (rule round_binary_exact [where m = 5404319552844595 and k = "- 55"]) simp_all

text \<open>
  Ten rows with the fractions of the training program, the floats nearest to 0.7 and
  0.15: the cuts are 7 and 8.
\<close>

theorem time_split_contract_witness:
  "float64 (6305039478318694 / 2 ^ 53) = Fin (6305039478318694 / 2 ^ 53)
   \<and> float64 (5404319552844595 / 2 ^ 55) = Fin (5404319552844595 / 2 ^ 55)
   \<and> (6305039478318694 / 2 ^ 53 + 5404319552844595 / 2 ^ 55 :: real) < 1
   \<and> time_split [0, 1, 2, 3, 4, 5, 6, 7, 8, 9 :: nat]
        (Fin (6305039478318694 / 2 ^ 53)) (Fin (5404319552844595 / 2 ^ 55))
      = Inr ([0, 1, 2, 3, 4, 5, 6], [7], [8, 9])"
proof -
  let ?df = "[0, 1, 2, 3, 4, 5, 6, 7, 8, 9 :: nat]"
  let ?a = "6305039478318694 / 2 ^ 53 :: real" and ?b = "5404319552844595 / 2 ^ 55 :: real"
  have lt: "?a + ?b < 1" by simp
  have len: "real (length ?df) = 10" by simp
  have m1: "int_of_float (dmul (Fin 10) (Fin ?a)) = Inr 7"
    by (simp only: dmul_def fmul.simps fval.case float64_train_10 int_of_float_def)
       (simp add: py_int_def)
  have m2: "int_of_float (dmul (Fin 10) (dadd (Fin ?a) (Fin ?b))) = Inr 8"
    by (simp only: dmul_def dadd_def fadd.simps fmul.simps fval.case float64_sum float64_val_10
          int_of_float_def)
       (simp add: py_int_def)
  obtain cut1 cut2 where
    c1: "int_of_float (dmul (Fin (real (length ?df))) (Fin ?a)) = Inr (int cut1)"
    and c2: "int_of_float (dmul (Fin (real (length ?df))) (dadd (Fin ?a) (Fin ?b))) = Inr (int cut2)"
    and sp: "time_split ?df (Fin ?a) (Fin ?b)
             = Inr (take cut1 ?df, take (cut2 - cut1) (drop cut1 ?df), drop cut2 ?df)"
    using time_split_contract [OF float64_070_fixed float64_015_fixed _ _ lt, of ?df]
    by auto
  have "cut1 = 7" using c1 unfolding len m1 by simp
  moreover have "cut2 = 8" using c2 unfolding len m2 by simp
  ultimately have "time_split ?df (Fin ?a) (Fin ?b) = Inr ([0, 1, 2, 3, 4, 5, 6], [7], [8, 9])"
    using sp by simp
  then show ?thesis
    using float64_070_fixed float64_015_fixed lt by (intro conjI)
qed

text \<open>
  The cut is not the floor of the exact product. With the fractions of the training
  program and 90 rows the split is 62, 14 and 14 rows, and the floor of 90 times 0.7 is
  63; with 10 rows it is 7, 1 and 2 rows, and the floor of 10 times the float nearest to
  0.7 is 6.
\<close>

theorem time_split_cut_not_floor:
  "time_split [0..<90] (float64 (7 / 10)) (float64 (15 / 100))
     = Inr ([0..<62], [62..<76], [76..<90])
   \<and> \<lfloor>90 * (7 / 10 :: real)\<rfloor> = 63
   \<and> time_split [0..<10] (float64 (7 / 10)) (float64 (15 / 100))
       = Inr ([0..<7], [7..<8], [8..<10])
   \<and> float64 (7 / 10) = Fin (6305039478318694 / 2 ^ 53)
   \<and> \<lfloor>10 * (6305039478318694 / 2 ^ 53 :: real)\<rfloor> = 6"
proof (intro conjI)
  have "time_split [0..<90] (float64 (7 / 10)) (float64 (15 / 100))
        = Inr (take 62 [0..<90], take 14 (drop 62 [0..<90]), drop 76 [0..<90])"
    by (rule time_split_main_90) simp
  then show "time_split [0..<90] (float64 (7 / 10)) (float64 (15 / 100))
        = Inr ([0..<62], [62..<76], [76..<90])"
    by simp
  have "time_split [0..<10] (float64 (7 / 10)) (float64 (15 / 100))
        = Inr (take 7 [0..<10], take 1 (drop 7 [0..<10]), drop 8 [0..<10])"
    by (rule time_split_main_10) simp
  then show "time_split [0..<10] (float64 (7 / 10)) (float64 (15 / 100))
        = Inr ([0..<7], [7..<8], [8..<10])"
    by simp
  show "float64 (7 / 10) = Fin (6305039478318694 / 2 ^ 53)" by (rule float64_070)
qed simp_all

section \<open>Sliding windows\<close>

lemma py_index_in_range: "0 \<le> t \<Longrightarrow> t < int (length xs) \<Longrightarrow> py_index xs t = Inr (xs ! nat t)"
  by (simp add: py_index_def)

lemma window_loop_in_range:
  "\<forall>t\<in>set ts. 0 \<le> t \<and> t < int (length labels) \<Longrightarrow>
   window_loop feats labels sl ts (X, y) =
     Inr (X @ map (\<lambda>t. py_slice feats (Some (t - sl + 1)) (Some (t + 1))) ts,
          y @ map (\<lambda>t. labels ! nat t) ts)"
  by (induction ts arbitrary: X y) (simp_all add: py_index_in_range)

lemma py_range_shift:
  assumes "0 < S"
  shows "py_range (int S - 1) (int L) = map (\<lambda>i. int (S - 1 + i)) [0..<L + 1 - S]"
proof (rule nth_equalityI)
  show len: "length (py_range (int S - 1) (int L)) = length (map (\<lambda>i. int (S - 1 + i)) [0..<L + 1 - S])"
    using assms by (auto simp add: py_range_def)
  fix i assume "i < length (py_range (int S - 1) (int L))"
  then have "i < L + 1 - S" using len by simp
  then show "py_range (int S - 1) (int L) ! i = map (\<lambda>i. int (S - 1 + i)) [0..<L + 1 - S] ! i"
    using assms by (simp add: py_range_def)
qed

lemma window_at:
  assumes "i + S \<le> length feats"
  shows "py_slice feats (Some (int i)) (Some (int S + int i)) = take S (drop i feats)"
proof -
  have "nat (int S + int i) = S + i" by simp
  then show ?thesis
    using assms by (simp add: py_slice_def slice_index_def Let_def min_def)
qed

lemma window_loop_group:
  assumes "0 < S"
  shows "window_loop (map feature_vector g) (map (\<lambda>r. astype_float32 (y_up r)) g) (int S)
           (py_range (int S - 1) (int (length g))) (X, y)
         = Inr (X @ expected_windows S g, y @ expected_labels S g)"
proof -
  let ?feats = "map feature_vector g"
  let ?labels = "map (\<lambda>r. astype_float32 (y_up r)) g"
  let ?ts = "map (\<lambda>i. int (S - 1 + i)) [0..<length g + 1 - S]"
  have inr: "\<forall>t\<in>set ?ts. 0 \<le> t \<and> t < int (length ?labels)"
    using assms by auto
  have w: "map (\<lambda>t. py_slice ?feats (Some (t - int S + 1)) (Some (t + 1))) ?ts = expected_windows S g"
    using assms by (simp add: expected_windows_def window_at take_map drop_map)
  have "map (\<lambda>i. ?labels ! (S - 1 + i)) [0..<length g + 1 - S]
        = map (\<lambda>i. astype_float32 (y_up (g ! (S - 1 + i)))) [0..<length g + 1 - S]"
    using assms by (intro map_cong refl nth_map) auto
  then have l: "map (\<lambda>t. ?labels ! nat t) ?ts = expected_labels S g"
    unfolding expected_labels_def map_map comp_def nat_int .
  show ?thesis
    unfolding py_range_shift [OF assms] window_loop_in_range [OF inr] w l ..
qed

lemma group_loop_all:
  assumes "0 < S"
  shows "group_loop gs (int S) (X, y)
         = Inr (X @ concat (map (\<lambda>kg. expected_windows S (snd kg)) gs),
                y @ concat (map (\<lambda>kg. expected_labels S (snd kg)) gs))"
proof (induction gs arbitrary: X y)
  case Nil
  show ?case by simp
next
  case (Cons kg gs)
  obtain k g where kg: "kg = (k, g)" by (cases kg)
  show ?case
    unfolding kg
    by (simp add: window_loop_group [OF assms, unfolded feature_vector_def] Cons.IH Let_def)
qed

lemma expected_windows_length: "w \<in> set (expected_windows S g) \<Longrightarrow> length w = S"
  by (auto simp add: expected_windows_def)

lemma expected_windows_nth:
  "i < length g + 1 - S \<Longrightarrow> expected_windows S g ! i = map feature_vector (take S (drop i g))"
  by (simp add: expected_windows_def)

lemma make_sequences_expected:
  assumes "0 < S"
  shows "make_sequences df (int S)
    = Inr (concat (map (\<lambda>kg. expected_windows S (snd kg)) (groupby_ticker df)),
           concat (map (\<lambda>kg. expected_labels S (snd kg)) (groupby_ticker df)))"
proof -
  let ?X = "concat (map (\<lambda>kg. expected_windows S (snd kg)) (groupby_ticker df))"
  let ?y = "concat (map (\<lambda>kg. expected_labels S (snd kg)) (groupby_ticker df))"
  have gl: "group_loop (groupby_ticker df) (int S) ([], []) = Inr (?X, ?y)"
    using group_loop_all [OF assms, of "groupby_ticker df" "[]" "[]"] by simp
  have all: "\<forall>w\<in>set ?X. length w = S"
    by (auto dest: expected_windows_length)
  have leny: "length ?y = length ?X"
    by (simp add: length_concat expected_windows_def expected_labels_def comp_def)
  show ?thesis
  proof (cases "?X = []")
    case True
    then have "length ?X = 0" by (simp only: list.size)
    with leny have "length ?y = 0" by (simp only:)
    then have "?y = []" by (simp only: length_0_conv)
    then show ?thesis using True gl by (simp add: make_sequences_def)
  next
    case False
    then have "hd ?X \<in> set ?X" by (rule hd_in_set)
    then have "length (hd ?X) = S" using all by blast
    then have "list_all (\<lambda>w. length w = length (hd ?X)) ?X"
      using all by (simp add: list_all_iff)
    then show ?thesis using False gl by (simp add: make_sequences_def)
  qed
qed


text \<open>
  C2 (as the code has it). For every data set and every positive window length \<open>S\<close>,
  \<open>make_sequences\<close> returns, group after group, the windows and labels defined above.
  A group of length \<open>L\<close> contributes \<open>max 0 (L - S + 1)\<close> sequences; the \<open>i\<close>-th
  of them has \<open>S\<close> rows, its row \<open>j\<close> being the feature vector of row \<open>i + j\<close> of
  the group converted to float32, and its label is the label of row \<open>S - 1 + i\<close> of the
  group converted to float32.
\<close>

theorem make_sequences_per_group:
  assumes "0 < S"
  shows "make_sequences df (int S)
           = Inr (concat (map (\<lambda>kg. expected_windows S (snd kg)) (groupby_ticker df)),
                  concat (map (\<lambda>kg. expected_labels S (snd kg)) (groupby_ticker df)))
         \<and> (\<forall>g. int (length (expected_windows S g)) = max 0 (int (length g) - int S + 1)
                \<and> length (expected_labels S g) = length (expected_windows S g))
         \<and> (\<forall>g i. i < length (expected_windows S g) \<longrightarrow>
                length (expected_windows S g ! i) = S
              \<and> (\<forall>j<S. expected_windows S g ! i ! j
                         = map (\<lambda>c. astype_float32 (feat (g ! (i + j)) c)) FEATURES)
              \<and> expected_labels S g ! i = astype_float32 (y_up (g ! (S - 1 + i))))"
proof (intro conjI allI impI)
  show "make_sequences df (int S)
           = Inr (concat (map (\<lambda>kg. expected_windows S (snd kg)) (groupby_ticker df)),
                  concat (map (\<lambda>kg. expected_labels S (snd kg)) (groupby_ticker df)))"
    by (rule make_sequences_expected [OF assms])
next
  fix g show "int (length (expected_windows S g)) = max 0 (int (length g) - int S + 1)"
    by (auto simp add: expected_windows_def)
next
  fix g show "length (expected_labels S g) = length (expected_windows S g)"
    by (simp add: expected_windows_def expected_labels_def)
next
  fix g i assume "i < length (expected_windows S g)"
  then show "length (expected_windows S g ! i) = S"
    by (simp add: expected_windows_def)
next
  fix g i j assume "i < length (expected_windows S g)" and "j < S"
  then show "expected_windows S g ! i ! j
              = map (\<lambda>c. astype_float32 (feat (g ! (i + j)) c)) FEATURES"
    by (simp add: expected_windows_def feature_vector_def)
next
  fix g i assume "i < length (expected_windows S g)"
  then show "expected_labels S g ! i = astype_float32 (y_up (g ! (S - 1 + i)))"
    by (simp add: expected_windows_def expected_labels_def)
qed

lemma scenario_A_tickers: "sort (remdups (map ticker scenario_A)) = [''AAA'', ''BBB'']"
proof -
  have "set (map ticker scenario_A) = {''AAA'', ''BBB''}"
    by (auto simp add: scenario_A_def scenario_A_row_def image_constant_conv)
  then have "sorted_list_of_set (set (map ticker scenario_A)) = [''AAA'', ''BBB'']"
    by simp
  then show ?thesis by (simp only: sorted_list_of_set_sort_remdups)
qed

lemma scenario_A_groups:
  "groupby_ticker scenario_A
   = [(''AAA'', map (scenario_A_row ''AAA'') [0..<50]), (''BBB'', map (scenario_A_row ''BBB'') [0..<50])]"
  unfolding groupby_ticker_def scenario_A_tickers
  by (simp add: scenario_A_def filter_map comp_def scenario_A_row_def)

text \<open>
  Scenario A: two tickers with 50 rows each and \<open>seq_len = 10\<close> give 41 sequences for
  each ticker, 82 in all.
\<close>

theorem make_sequences_per_group_witness:
  "(0::nat) < 10
   \<and> map (\<lambda>kg. (fst kg, length (expected_windows 10 (snd kg)))) (groupby_ticker scenario_A)
       = [(''AAA'', 41), (''BBB'', 41)]
   \<and> (case make_sequences scenario_A 10 of
         Inl e \<Rightarrow> False
       | Inr (X, y) \<Rightarrow> length X = 82 \<and> length y = 82)"
  using make_sequences_per_group [of 10 scenario_A]
  by (simp add: scenario_A_groups expected_windows_def expected_labels_def)

lemma float32_wide: "float32 16777217 = Fin 16777216"
  unfolding float32_def
  by (subst round_binary_eval [where e = "24"]) (simp_all add: rne_def)

lemma float32_one: "float32 1 = Fin 1"
  unfolding float32_def
  by (rule round_binary_exact [where m = 1 and k = 0]) simp_all

text \<open>
  A window is not always equal to the rows of the group: the feature value
  \<open>2^24 + 1 = 16777217\<close> of the data set is \<open>16777216\<close> in the window.
\<close>

theorem make_sequences_window_not_rows:
  "make_sequences [wide_row] 1 = Inr ([[replicate 10 (Fin 16777216)]], [Fin 1])
   \<and> map (feat wide_row) FEATURES = replicate 10 (Fin 16777217)
   \<and> replicate 10 (Fin 16777216) \<noteq> map (feat wide_row) FEATURES"
proof -
  have g: "groupby_ticker [wide_row] = [(''AAPL'', [wide_row])]"
    by (simp add: groupby_ticker_def wide_row_def)
  have v: "feature_vector wide_row = replicate 10 (Fin 16777216)"
    by (simp add: feature_vector_def wide_row_def astype_float32_def float32_wide FEATURES_def
          eval_nat_numeral)
  have l: "astype_float32 (y_up wide_row) = Fin 1"
    by (simp add: wide_row_def astype_float32_def float32_one)
  have "make_sequences [wide_row] 1
        = Inr (concat (map (\<lambda>kg. expected_windows 1 (snd kg)) [(''AAPL'', [wide_row])]),
               concat (map (\<lambda>kg. expected_labels 1 (snd kg)) [(''AAPL'', [wide_row])]))"
    using make_sequences_expected [of 1 "[wide_row]"] by (simp add: g)
  then have m: "make_sequences [wide_row] 1 = Inr ([[replicate 10 (Fin 16777216)]], [Fin 1])"
    by (simp add: expected_windows_def expected_labels_def v l)
  have r: "map (feat wide_row) FEATURES = replicate 10 (Fin 16777217)"
    by (simp add: wide_row_def FEATURES_def eval_nat_numeral)
  have "replicate 10 (Fin 16777216) \<noteq> replicate 10 (Fin (16777217 :: real))"
    by (simp add: eval_nat_numeral)
  then show ?thesis using m r by simp
qed

section \<open>The loader sorts stably\<close>

lemma date_key_le: "date_key a \<le> date_key b \<longleftrightarrow> stamp_le a b"
  by (cases a; cases b) simp_all

lemma date_key_inj: "date_key a = date_key b \<longleftrightarrow> a = b"
  by (cases a; cases b) simp_all

lemma sort_cols_le: "sort_cols a \<le> sort_cols b \<longleftrightarrow> key_le a b"
  by (auto simp add: sort_cols_def key_le_def date_key_le)

lemma sort_cols_eq: "sort_cols r = (k, date_key d) \<longleftrightarrow> same_key k d r"
  by (simp add: sort_cols_def same_key_def date_key_inj)

lemma sorted_wrt_sort_values: "sorted_wrt key_le (sort_values df)"
proof -
  have "sorted (map sort_cols (sort_key sort_cols df))"
    by (rule sorted_sort_key)
  then show ?thesis
    by (simp add: sorted_map sort_values_def sort_cols_le)
qed

lemma sort_values_stable: "filter (same_key k d) (sort_values df) = filter (same_key k d) df"
  using sort_key_stable [of sort_cols "(k, date_key d)" df]
  by (simp add: sort_values_def sort_cols_eq)

lemma coerce_key_le: "key_le (coerce_features pf a) (coerce_features pf b) = key_le a b"
  by (simp add: key_le_def coerce_features_def)

lemma coerce_same_key: "same_key k d (coerce_features pf r) = same_key k d r"
  by (simp add: same_key_def coerce_features_def)

text \<open>
  C6. Whenever \<open>load_dataset\<close> returns a frame, its rows are sorted by ticker
  ascending and then date ascending (NaT last), and the rows with one and the same ticker
  and date stand in the order in which the CSV file has them: for every ticker and
  date, the rows of the result with that key are the surviving rows of the file with that
  key, in file order.
\<close>

theorem load_dataset_sorted_stable:
  assumes "load_dataset to_datetime parse_float csv tickers = Inr df"
  shows "sorted_wrt key_le df
       \<and> (\<exists>dated. to_datetime_col to_datetime (kept_rows csv tickers) = Inr dated
            \<and> (\<forall>k d. filter (same_key k d) df
                     = filter (same_key k d) (map (coerce_features parse_float) dated)))"
proof -
  from assms obtain dated where
    dated: "to_datetime_col to_datetime (kept_rows csv tickers) = Inr dated"
    and df: "df = map (coerce_features parse_float) (sort_values dated)"
    by (auto simp add: load_dataset_def split: sum.splits)
  have "sorted_wrt key_le df"
    using sorted_wrt_sort_values [of dated]
    by (simp add: df sorted_wrt_map coerce_key_le)
  moreover have "filter (same_key k d) df
      = filter (same_key k d) (map (coerce_features parse_float) dated)" for k d
    by (simp add: df filter_map comp_def coerce_same_key sort_values_stable)
  ultimately show ?thesis using dated by blast
qed

lemma load_example: "load_dataset example_to_datetime example_parse_float example_csv None = Inr example_df"
  by (simp add: load_dataset_def kept_rows_def example_csv_def example_to_datetime_def example_parse_float_def
      sort_values_def sort_cols_def coerce_features_def to_numeric_def example_df_def)

text \<open>
  The example file: the two rows of AAPL on the same day keep their order, the row
  without a label is gone.
\<close>

theorem load_dataset_sorted_stable_witness:
  "load_dataset example_to_datetime example_parse_float example_csv None = Inr example_df
   \<and> sorted_wrt key_le example_df
   \<and> filter (same_key ''AAPL'' (At 2)) example_df
       = [\<lparr>ticker = ''AAPL'', date = At 2, feat = (\<lambda>c. Fin (3 / 2)), y_up = Fin 1\<rparr>,
          \<lparr>ticker = ''AAPL'', date = At 2, feat = (\<lambda>c. NaN), y_up = Fin 0\<rparr>]"
  using load_dataset_sorted_stable [OF load_example] load_example
  by (simp add: example_df_def same_key_def)

section \<open>Applying the standardizer\<close>

lemma distinct_FEATURES: "distinct FEATURES"
  by (simp add: FEATURES_def)

lemma standardize_zscore:
  "standardize s v = (if isinf (zscore s v) \<or> isnan (zscore s v) then Fin 0 else zscore s v)"
  by (cases "zscore s v") (simp_all add: standardize_def zscore_def fillna_def replace_inf_def)

lemma apply_columns_closed:
  assumes "set cs \<subseteq> dom stats" and "distinct cs"
  shows "apply_columns cs stats out
         = Inr (map (\<lambda>r. r\<lparr>feat := (\<lambda>c. if c \<in> set cs then standardize (the (stats c)) (feat r c)
                                        else feat r c)\<rparr>) out)"
  using assms
proof (induction cs arbitrary: out)
  case Nil
  show ?case by (simp add: map_idI)
next
  case (Cons c cs)
  from Cons.prems obtain s where s: "stats c = Some s" by auto
  have rest: "set cs \<subseteq> dom stats" "distinct cs" and notin: "c \<notin> set cs"
    using Cons.prems by auto
  show ?case
    using notin by (simp add: s Cons.IH [OF rest] comp_def fun_eq_iff cong: map_cong)
qed

lemma apply_standardizer_closed:
  assumes "set FEATURES \<subseteq> dom stats"
  shows "apply_standardizer df stats = Inr (map (\<lambda>r. r\<lparr>feat := expected_cell stats r\<rparr>) df)"
proof -
  have "(\<lambda>c. if c \<in> set FEATURES then standardize (the (stats c)) (feat r c) else feat r c)
        = expected_cell stats r" for r :: row
  proof
    fix c
    show "(if c \<in> set FEATURES then standardize (the (stats c)) (feat r c) else feat r c)
          = expected_cell stats r c"
    proof (cases "c \<in> set FEATURES")
      case True
      then obtain s where "stats c = Some s" using assms by auto
      then show ?thesis using True by (simp add: expected_cell_def standardize_zscore)
    next
      case False
      then show ?thesis by (simp add: expected_cell_def split: option.splits)
    qed
  qed
  then show ?thesis
    by (simp add: apply_standardizer_def apply_columns_closed [OF assms distinct_FEATURES])
qed

lemma apply_columns_KeyError:
  "\<not> set cs \<subseteq> dom stats \<Longrightarrow> apply_columns cs stats out = Inl KeyError"
  by (induction cs arbitrary: out) (auto split: option.splits)

text \<open>
  C7. For every data set and all statistics that have an entry for each feature,
  \<open>apply_standardizer\<close> returns the data set with every cell of a feature column
  replaced by \<open>(value - mean) / std\<close>, and by 0 where that is infinite or missing; so
  no cell of a feature column is infinite or missing afterwards, and a missing input
  becomes 0. For finite operands and a non-zero std the z-score is the real quotient. No
  cell value makes the function fail: its only failure is the KeyError for statistics
  that lack a feature, whatever the data.
\<close>

theorem apply_standardizer_recovers:
  "(set FEATURES \<subseteq> dom stats \<longrightarrow>
      apply_standardizer df stats = Inr (map (\<lambda>r. r\<lparr>feat := expected_cell stats r\<rparr>) df))
   \<and> (\<not> set FEATURES \<subseteq> dom stats \<longrightarrow> apply_standardizer df stats = Inl KeyError)
   \<and> (\<forall>r c s. stats c = Some s \<longrightarrow> c \<in> set FEATURES \<longrightarrow>
          expected_cell stats r c
            = (if isinf (zscore s (feat r c)) \<or> isnan (zscore s (feat r c)) then Fin 0
               else zscore s (feat r c))
        \<and> \<not> isinf (expected_cell stats r c) \<and> \<not> isnan (expected_cell stats r c)
        \<and> (isnan (feat r c) \<longrightarrow> expected_cell stats r c = Fin 0))
   \<and> (\<forall>a m sd. sd \<noteq> 0 \<longrightarrow> zscore \<lparr>mean = Fin m, std = Fin sd\<rparr> (Fin a) = Fin ((a - m) / sd))"
proof (intro conjI allI impI)
  assume "set FEATURES \<subseteq> dom stats"
  then show "apply_standardizer df stats = Inr (map (\<lambda>r. r\<lparr>feat := expected_cell stats r\<rparr>) df)"
    by (rule apply_standardizer_closed)
next
  assume "\<not> set FEATURES \<subseteq> dom stats"
  then show "apply_standardizer df stats = Inl KeyError"
    by (simp add: apply_standardizer_def apply_columns_KeyError)
next
  fix r :: row and c s assume "stats c = Some s" and "c \<in> set FEATURES"
  then show "expected_cell stats r c
            = (if isinf (zscore s (feat r c)) \<or> isnan (zscore s (feat r c)) then Fin 0
               else zscore s (feat r c))"
    by (simp add: expected_cell_def)
next
  fix r :: row and c s assume "stats c = Some s" and "c \<in> set FEATURES"
  then show "\<not> isinf (expected_cell stats r c)"
    by (cases "zscore s (feat r c)") (simp_all add: expected_cell_def)
next
  fix r :: row and c s assume "stats c = Some s" and "c \<in> set FEATURES"
  then show "\<not> isnan (expected_cell stats r c)"
    by (cases "zscore s (feat r c)") (simp_all add: expected_cell_def)
next
  fix r :: row and c s assume "stats c = Some s" and "c \<in> set FEATURES" and "isnan (feat r c)"
  then show "expected_cell stats r c = Fin 0"
    by (cases "feat r c") (simp_all add: expected_cell_def zscore_def fsub_def)
next
  fix a m sd :: real assume "sd \<noteq> 0"
  then show "zscore \<lparr>mean = Fin m, std = Fin sd\<rparr> (Fin a) = Fin ((a - m) / sd)"
    by (simp add: zscore_def fsub_def)
qed

lemma example_stats_dom: "set FEATURES \<subseteq> dom example_stats"
  by (auto simp add: example_stats_def dom_def)

text \<open>
  With mean 1 and std 2: the cell 5 becomes 2, the missing cell and the infinite cell
  become 0, the cell 1 becomes 0.
\<close>

theorem apply_standardizer_recovers_witness:
  "set FEATURES \<subseteq> dom example_stats
   \<and> (case apply_standardizer example_cells example_stats of
         Inl e \<Rightarrow> []
       | Inr out \<Rightarrow> map (\<lambda>r. [feat r ''close'', feat r ''volume'', feat r ''ret1'', feat r ''Ts'']) out)
       = [[Fin 2, Fin 0, Fin 0, Fin 0]]"
  using apply_standardizer_recovers [of example_stats example_cells] example_stats_dom
  by (simp add: example_cells_def expected_cell_def example_stats_def zscore_def fsub_def
      FEATURES_def)

section \<open>Fitting the standardizer\<close>

lemma foldl_map_upd:
  "foldl (\<lambda>m c. m(c \<mapsto> f c)) m0 cs k = (if k \<in> set cs then Some (f k) else m0 k)"
  by (induction cs arbitrary: m0) auto

lemma fit_standardizer_lookup:
  "fit_standardizer train_df c
   = (if c \<in> set FEATURES then Some (fit_column train_df c) else None)"
  by (simp add: fit_standardizer_def foldl_map_upd)

lemma fit_standardizer_dom: "dom (fit_standardizer train_df) = set FEATURES"
  by (auto simp add: fit_standardizer_lookup dom_def)

lemma filter_replace_inf:
  "filter (\<lambda>v. \<not> isnan v) (map (replace_inf NaN) col) = map Fin (finite_part col)"
proof (induction col)
  case Nil
  show ?case by simp
next
  case (Cons v col)
  then show ?case by (cases v) (simp_all add: replace_inf_def)
qed

lemma foldl_fadd_Fin: "foldl fadd (Fin a) (map Fin xs) = Fin (a + sum_list xs)"
  by (induction xs arbitrary: a) (simp_all add: add.assoc)

lemma nanmean_finite:
  assumes "finite_part col \<noteq> []"
  shows "nanmean (map (replace_inf NaN) col) = Fin (mean_of (finite_part col))"
  using assms by (simp add: nanmean_def filter_replace_inf foldl_fadd_Fin mean_of_def)

lemma nanmean_none:
  assumes "finite_part col = []"
  shows "nanmean (map (replace_inf NaN) col) = NaN"
  using assms by (simp add: nanmean_def filter_replace_inf)

lemma nanstd_finite:
  assumes "finite_part col \<noteq> []"
  shows "nanstd (map (replace_inf NaN) col) = Fin (std_of (finite_part col))"
proof -
  let ?vs = "finite_part col"
  let ?mu = "mean_of ?vs"
  have sq: "map (\<lambda>v. fmul (fsub v (Fin ?mu)) (fsub v (Fin ?mu))) (map Fin ?vs)
            = map Fin (map (\<lambda>a. (a - ?mu)\<^sup>2) ?vs)"
    by (simp add: fsub_def power2_eq_square)
  have nonneg: "0 \<le> sum_list (map (\<lambda>a. (a - ?mu)\<^sup>2) ?vs) / real (length ?vs)"
    by (intro divide_nonneg_nonneg sum_list_nonneg) auto
  show ?thesis
    using assms nonneg
    by (simp add: nanstd_def filter_replace_inf nanmean_finite sq foldl_fadd_Fin std_of_def
        del: map_map)
qed

lemma nanstd_none:
  assumes "finite_part col = []"
  shows "nanstd (map (replace_inf NaN) col) = NaN"
  using assms by (simp add: nanstd_def filter_replace_inf)

lemma fit_column_finite:
  "fit_column train_df c
   = (let vs = finite_part (map (\<lambda>r. feat r c) train_df)
      in if vs = [] then \<lparr>mean = NaN, std = Fin 1\<rparr>
         else \<lparr>mean = Fin (mean_of vs),
               std = Fin (if std_of vs \<le> 1 / 10 ^ 12 then 1 else std_of vs)\<rparr>)"
proof -
  let ?col = "map (\<lambda>r. feat r c) train_df"
  have x: "map (\<lambda>r. replace_inf NaN (feat r c)) train_df = map (replace_inf NaN) ?col"
    by simp
  show ?thesis
  proof (cases "finite_part ?col = []")
    case True
    then show ?thesis
      unfolding fit_column_def x by (simp add: nanmean_none nanstd_none Let_def del: map_map)
  next
    case False
    then show ?thesis
      unfolding fit_column_def x
      by (simp add: nanmean_finite nanstd_finite Let_def not_less del: map_map)
  qed
qed

lemma finite_part_const:
  "\<forall>v\<in>set col. v = Fin a \<Longrightarrow> finite_part col = replicate (length col) a"
  by (induction col) auto

lemma mean_of_replicate: "0 < n \<Longrightarrow> mean_of (replicate n a) = a"
  by (simp add: mean_of_def sum_list_replicate)

lemma std_of_replicate: "0 < n \<Longrightarrow> std_of (replicate n a) = 0"
  by (simp add: std_of_def mean_of_replicate sum_list_replicate map_replicate_const)

lemma fit_column_constant:
  assumes "train_df \<noteq> []" and "\<forall>r\<in>set train_df. feat r c = Fin a"
  shows "fit_column train_df c = \<lparr>mean = Fin a, std = Fin 1\<rparr>"
proof -
  have "finite_part (map (\<lambda>r. feat r c) train_df) = replicate (length train_df) a"
    using assms(2) by (intro finite_part_const [THEN trans]) auto
  then show ?thesis
    using assms(1) by (simp add: fit_column_finite mean_of_replicate std_of_replicate)
qed

text \<open>
  C4 (as the code has it). For each feature, \<open>fit_standardizer\<close> stores the mean and
  the standard deviation of the finite train values, with 1 in place of a standard
  deviation of at most \<open>1e-12\<close> (with no finite value at all: mean NaN and std 1). So
  for a feature that is 5 in every row of a non-empty train split the fit is mean 5 and
  std 1. Applying these statistics gives 0 for that feature in every row of the train
  split; in any other frame it gives \<open>v - 5\<close> for a finite cell \<open>v\<close>, which is 0
  only where the cell is 5 too, and 0 for a missing or infinite cell.
\<close>

theorem fit_then_apply_constant_feature:
  assumes "c \<in> set FEATURES"
  shows "fit_standardizer train_df c
           = Some (let vs = finite_part (map (\<lambda>r. feat r c) train_df)
                   in if vs = [] then \<lparr>mean = NaN, std = Fin 1\<rparr>
                      else \<lparr>mean = Fin (mean_of vs),
                            std = Fin (if std_of vs \<le> 1 / 10 ^ 12 then 1 else std_of vs)\<rparr>)
       \<and> (train_df \<noteq> [] \<and> (\<forall>r\<in>set train_df. feat r c = Fin 5) \<longrightarrow>
            fit_standardizer train_df c = Some \<lparr>mean = Fin 5, std = Fin 1\<rparr>
          \<and> (\<exists>out. apply_standardizer train_df (fit_standardizer train_df) = Inr out
                 \<and> length out = length train_df \<and> (\<forall>r\<in>set out. feat r c = Fin 0))
          \<and> (\<forall>df. \<exists>out. apply_standardizer df (fit_standardizer train_df) = Inr out
                 \<and> length out = length df
                 \<and> (\<forall>i<length df. feat (out ! i) c
                        = (case feat (df ! i) c of Fin v \<Rightarrow> Fin (v - 5) | _ \<Rightarrow> Fin 0))))"
proof (intro conjI impI)
  show "fit_standardizer train_df c
           = Some (let vs = finite_part (map (\<lambda>r. feat r c) train_df)
                   in if vs = [] then \<lparr>mean = NaN, std = Fin 1\<rparr>
                      else \<lparr>mean = Fin (mean_of vs),
                            std = Fin (if std_of vs \<le> 1 / 10 ^ 12 then 1 else std_of vs)\<rparr>)"
    using assms by (simp only: fit_standardizer_lookup fit_column_finite if_True)
next
  assume const: "train_df \<noteq> [] \<and> (\<forall>r\<in>set train_df. feat r c = Fin 5)"
  let ?stats = "fit_standardizer train_df"
  show fit: "?stats c = Some \<lparr>mean = Fin 5, std = Fin 1\<rparr>"
    using assms const by (simp add: fit_standardizer_lookup fit_column_constant)
  have dom: "set FEATURES \<subseteq> dom ?stats"
    by (simp add: fit_standardizer_dom)
  have cell: "expected_cell ?stats r c = (case feat r c of Fin v \<Rightarrow> Fin (v - 5) | _ \<Rightarrow> Fin 0)"
    for r :: row
    using assms by (cases "feat r c") (simp_all add: expected_cell_def fit zscore_def fsub_def)
  show "\<forall>df. \<exists>out. apply_standardizer df ?stats = Inr out \<and> length out = length df
          \<and> (\<forall>i<length df. feat (out ! i) c
                = (case feat (df ! i) c of Fin v \<Rightarrow> Fin (v - 5) | _ \<Rightarrow> Fin 0))"
    by (simp add: apply_standardizer_closed [OF dom] cell)
  show "\<exists>out. apply_standardizer train_df ?stats = Inr out
          \<and> length out = length train_df \<and> (\<forall>r\<in>set out. feat r c = Fin 0)"
    using const by (simp add: apply_standardizer_closed [OF dom] cell)
qed

lemma scenario_B_split:
  "time_split scenario_B (float64 (7 / 10)) (float64 (15 / 100))
   = Inr (scenario_B_train, [scenario_B_row 7], [scenario_B_row 8, scenario_B_row 9])"
proof -
  have "time_split scenario_B (float64 (7 / 10)) (float64 (15 / 100))
        = Inr (take 7 scenario_B, take 1 (drop 7 scenario_B), drop 8 scenario_B)"
    by (rule time_split_main_10) (simp add: scenario_B_def scenario_B_train_def)
  also have "\<dots> = Inr (scenario_B_train, [scenario_B_row 7], [scenario_B_row 8, scenario_B_row 9])"
    by (simp add: scenario_B_def scenario_B_train_def)
  finally show ?thesis .
qed

lemma scenario_B_train_const:
  "scenario_B_train \<noteq> [] \<and> (\<forall>r\<in>set scenario_B_train. feat r ''close'' = Fin 5)"
  by (simp add: scenario_B_train_def scenario_B_row_def)

lemma close_feature: "''close'' \<in> set FEATURES"
  by (simp add: FEATURES_def)

text \<open>Scenario B, on its train split.\<close>

theorem fit_then_apply_constant_feature_witness:
  "''close'' \<in> set FEATURES
   \<and> time_split scenario_B (float64 (7 / 10)) (float64 (15 / 100))
       = Inr (scenario_B_train, [scenario_B_row 7], [scenario_B_row 8, scenario_B_row 9])
   \<and> list_all (\<lambda>r. feat r ''close'' = Fin 5) scenario_B_train
   \<and> fit_standardizer scenario_B_train ''close'' = Some \<lparr>mean = Fin 5, std = Fin 1\<rparr>
   \<and> (case apply_standardizer scenario_B_train (fit_standardizer scenario_B_train) of
         Inl e \<Rightarrow> False
       | Inr out \<Rightarrow> length out = 7 \<and> list_all (\<lambda>r. feat r ''close'' = Fin 0) out)"
proof -
  from fit_then_apply_constant_feature [OF close_feature, of scenario_B_train]
    scenario_B_train_const
  have fit: "fit_standardizer scenario_B_train ''close'' = Some \<lparr>mean = Fin 5, std = Fin 1\<rparr>"
    and "\<exists>out. apply_standardizer scenario_B_train (fit_standardizer scenario_B_train) = Inr out
           \<and> length out = length scenario_B_train \<and> (\<forall>r\<in>set out. feat r ''close'' = Fin 0)"
    by blast+
  then obtain out where
    out: "apply_standardizer scenario_B_train (fit_standardizer scenario_B_train) = Inr out"
    and len: "length out = length scenario_B_train"
    and zero: "\<forall>r\<in>set out. feat r ''close'' = Fin 0"
    by auto
  have len7: "length out = 7" using len by (simp add: scenario_B_train_def)
  have five: "list_all (\<lambda>r. feat r ''close'' = Fin 5) scenario_B_train"
    using scenario_B_train_const by (simp add: list_all_iff)
  have "case apply_standardizer scenario_B_train (fit_standardizer scenario_B_train) of
          Inl e \<Rightarrow> False
        | Inr out \<Rightarrow> length out = 7 \<and> list_all (\<lambda>r. feat r ''close'' = Fin 0) out"
    using len7 zero by (simp add: out list_all_iff)
  with close_feature scenario_B_split five fit show ?thesis by (intro conjI)
qed

text \<open>
  Scenario B, on its validation split: the feature is 5 in the whole train split, the fit
  is mean 5 and std 1, and the validation row, whose cell is 7, gets 2 and not 0.
\<close>

theorem constant_train_feature_nonzero_in_validation:
  "time_split scenario_B (float64 (7 / 10)) (float64 (15 / 100))
     = Inr (scenario_B_train, [scenario_B_row 7], [scenario_B_row 8, scenario_B_row 9])
   \<and> list_all (\<lambda>r. feat r ''close'' = Fin 5) scenario_B_train
   \<and> fit_standardizer scenario_B_train ''close'' = Some \<lparr>mean = Fin 5, std = Fin 1\<rparr>
   \<and> (case apply_standardizer [scenario_B_row 7] (fit_standardizer scenario_B_train) of
         Inl e \<Rightarrow> []
       | Inr out \<Rightarrow> map (\<lambda>r. feat r ''close'') out) = [Fin 2]"
proof -
  let ?stats = "fit_standardizer scenario_B_train"
  have fit: "?stats ''close'' = Some \<lparr>mean = Fin 5, std = Fin 1\<rparr>"
    using scenario_B_train_const close_feature
    by (simp add: fit_standardizer_lookup fit_column_constant)
  have dom: "set FEATURES \<subseteq> dom ?stats"
    by (simp add: fit_standardizer_dom)
  have seven: "feat (scenario_B_row 7) ''close'' = Fin 7"
    by (simp add: scenario_B_row_def)
  have cell: "expected_cell ?stats (scenario_B_row 7) ''close'' = Fin 2"
    using close_feature by (simp add: expected_cell_def fit zscore_def fsub_def seven)
  have five: "list_all (\<lambda>r. feat r ''close'' = Fin 5) scenario_B_train"
    using scenario_B_train_const by (simp add: list_all_iff)
  have out: "(case apply_standardizer [scenario_B_row 7] ?stats of
         Inl e \<Rightarrow> []
       | Inr out \<Rightarrow> map (\<lambda>r. feat r ''close'') out) = [Fin 2]"
    by (simp add: apply_standardizer_closed [OF dom] cell)
  show ?thesis
    using scenario_B_split five fit out by (intro conjI)
qed

section \<open>The training program\<close>

lemma train_loop_keeps_files:
  "scaler_json (wld (snd (train_loop T p es st))) = scaler_json (wld st)
   \<and> meta_json (wld (snd (train_loop T p es st))) = meta_json (wld st)"
  by (induction es arbitrary: st) (simp_all add: Let_def split: option.splits sum.splits)

lemma train_and_test_scaler:
  "scaler_json (snd (train_and_test T a Xte w)) = scaler_json w"
proof -
  let ?st0 = "\<lparr>best_val_acc = 0, patience_left = arg_patience a, wld = w, broke = False\<rparr>"
  let ?r = "train_loop T (arg_patience a) (py_range 1 (arg_epochs a + 1)) ?st0"
  have "scaler_json (wld (snd ?r)) = scaler_json w"
    using train_loop_keeps_files [of T "arg_patience a" "py_range 1 (arg_epochs a + 1)" ?st0]
    by simp
  then show ?thesis
    by (cases ?r) (simp add: train_and_test_def split: option.splits sum.splits)
qed

lemma int_of_float_error: "int_of_float x = Inl e \<Longrightarrow> e = ValueError \<or> e = OverflowError"
  by (cases x) (simp_all add: int_of_float_def)

lemma time_split_error:
  "time_split df train_frac val_frac = Inl e \<Longrightarrow> e = ValueError \<or> e = OverflowError"
  by (auto simp add: time_split_def float_of_int_def
      split: sum.splits fval.splits dest: int_of_float_error)

lemma to_datetime_col_error: "to_datetime_col td rs = Inl e \<Longrightarrow> e = ValueError"
  by (induction rs) (auto split: option.splits sum.splits)

lemma load_dataset_error: "load_dataset td pf csv ts = Inl e \<Longrightarrow> e = ValueError"
  by (auto simp add: load_dataset_def split: sum.splits dest: to_datetime_col_error)

lemma apply_columns_error: "apply_columns cs stats out = Inl e \<Longrightarrow> e = KeyError"
  by (induction cs arbitrary: out) (auto split: option.splits)

lemma standardize_splits_error: "standardize_splits stats sp = Inl e \<Longrightarrow> e = KeyError"
  by (auto simp add: standardize_splits_def apply_standardizer_def
      split: prod.splits sum.splits dest: apply_columns_error)

lemma window_loop_error: "window_loop fs ls sl ts acc = Inl e \<Longrightarrow> e = IndexError"
proof (induction ts arbitrary: acc)
  case Nil
  then show ?case by (cases acc) simp
next
  case (Cons t ts)
  obtain X y where acc: "acc = (X, y)" by (cases acc)
  from Cons show ?case
    by (auto simp add: acc py_index_def split: sum.splits if_splits)
qed

lemma group_loop_error: "group_loop gs sl acc = Inl e \<Longrightarrow> e = IndexError"
proof (induction gs arbitrary: acc)
  case Nil
  then show ?case by simp
next
  case (Cons kg gs)
  obtain k g where kg: "kg = (k, g)" by (cases kg)
  from Cons show ?case
    by (auto simp add: kg Let_def split: sum.splits dest: window_loop_error)
qed

lemma make_sequences_error:
  "make_sequences df sl = Inl e \<Longrightarrow> e = IndexError \<or> e = ValueError"
  by (auto simp add: make_sequences_def split: sum.splits prod.splits if_splits
      dest: group_loop_error)

lemma sequence_splits_error:
  "sequence_splits sl sp = Inl e \<Longrightarrow> e = IndexError \<or> e = ValueError"
  by (auto simp add: sequence_splits_def split: prod.splits sum.splits
      dest: make_sequences_error)

lemma main_train_scaler:
  assumes "load_dataset td pf csv (arg_tickers a) = Inr df"
    and "time_split df (float64 (7 / 10)) (float64 (15 / 100)) = Inr (tr, va, te)"
  shows "scaler_json (snd (main_train td pf T a csv w)) = Some (fit_standardizer tr)"
  unfolding main_train_def assms sum.case
  by (simp add: Let_def train_and_test_scaler split: sum.splits prod.splits)

text \<open>The train split of a frame of the same length is cut at the same row.\<close>

lemma time_split_train_part:
  assumes "time_split d train_frac val_frac = Inr (tr, va, te)" and "length d' = length d"
  shows "\<exists>va' te'. time_split d' train_frac val_frac = Inr (take (length tr) d', va', te')"
proof -
  from assms(1) obtain n c1 c2 where
    n: "float_of_int (int (length d)) = Inr n"
    and c1: "int_of_float (dmul n train_frac) = Inr c1"
    and c2: "int_of_float (dmul n (dadd train_frac val_frac)) = Inr c2"
    and tr: "tr = py_slice d None (Some c1)"
    by (auto simp add: time_split_def split: sum.splits)
  have "length tr = slice_index (length d) c1"
    by (simp add: tr py_slice_def slice_index_def)
  then have "py_slice d' None (Some c1) = take (length tr) d'"
    by (simp add: py_slice_def assms(2))
  then show ?thesis
    by (simp add: time_split_def assms(2) n c1 c2)
qed

text \<open>
  C5. The statistics that a training run writes to \<open>scaler.json\<close> are the fit of
  the train split of the loaded frame, and of nothing else: two runs whose train splits
  are equal write equal statistics, whatever their validation and test rows, their
  arguments, what PyTorch does in them and the files found at the start. In particular
  two frames of equal length that agree on the rows before the first cut (rows after it
  changed at will) have the same train split and so the same fitted statistics. The
  prediction program reads the statistics from the model directory and writes no file.
\<close>

theorem fitted_stats_depend_on_train_only:
  assumes "load_dataset td pf csv (arg_tickers a) = Inr df"
    and "load_dataset td' pf' csv' (arg_tickers a') = Inr df'"
    and "time_split df (float64 (7 / 10)) (float64 (15 / 100)) = Inr (tr, va, te)"
    and "time_split df' (float64 (7 / 10)) (float64 (15 / 100)) = Inr (tr, va', te')"
  shows "scaler_json (snd (main_train td pf T a csv w)) = Some (fit_standardizer tr)
       \<and> scaler_json (snd (main_train td' pf' T' a' csv' w'))
           = scaler_json (snd (main_train td pf T a csv w))
       \<and> (\<forall>(d :: row list) d' dtr dva dte.
             length d' = length d
             \<and> time_split d (float64 (7 / 10)) (float64 (15 / 100)) = Inr (dtr, dva, dte)
             \<and> take (length dtr) d' = dtr
             \<longrightarrow> (\<exists>dtr' dva' dte'.
                    time_split d' (float64 (7 / 10)) (float64 (15 / 100)) = Inr (dtr', dva', dte')
                    \<and> dtr' = dtr \<and> fit_standardizer dtr' = fit_standardizer dtr))"
proof (intro conjI allI impI)
  show "scaler_json (snd (main_train td pf T a csv w)) = Some (fit_standardizer tr)"
    by (rule main_train_scaler [OF assms(1,3)])
  show "scaler_json (snd (main_train td' pf' T' a' csv' w'))
           = scaler_json (snd (main_train td pf T a csv w))"
    by (simp only: main_train_scaler [OF assms(1,3)] main_train_scaler [OF assms(2,4)])
next
  fix d d' dtr dva dte :: "row list"
  assume h: "length d' = length d
             \<and> time_split d (float64 (7 / 10)) (float64 (15 / 100)) = Inr (dtr, dva, dte)
             \<and> take (length dtr) d' = dtr"
  then have len: "length d' = length d"
    and sp: "time_split d (float64 (7 / 10)) (float64 (15 / 100)) = Inr (dtr, dva, dte)"
    and tk: "take (length dtr) d' = dtr"
    by simp_all
  from time_split_train_part [OF sp len] obtain dva' dte' where
    "time_split d' (float64 (7 / 10)) (float64 (15 / 100)) = Inr (take (length dtr) d', dva', dte')"
    by blast
  then have "time_split d' (float64 (7 / 10)) (float64 (15 / 100)) = Inr (dtr, dva', dte')"
    by (simp only: tk)
  then show "\<exists>dtr' dva' dte'.
               time_split d' (float64 (7 / 10)) (float64 (15 / 100)) = Inr (dtr', dva', dte')
               \<and> dtr' = dtr \<and> fit_standardizer dtr' = fit_standardizer dtr"
    by blast
qed

lemma load_example_mutated:
  "load_dataset example_to_datetime example_parse_float example_csv_mutated None
   = Inr example_df_mutated"
  by (simp add: load_dataset_def kept_rows_def example_csv_mutated_def example_to_datetime_def
      example_parse_float_def sort_values_def sort_cols_def coerce_features_def to_numeric_def
      example_df_mutated_def)

lemma example_split:
  "time_split example_df (float64 (7 / 10)) (float64 (15 / 100))
   = Inr (take 2 example_df, take 1 (drop 2 example_df), drop 3 example_df)"
  by (rule time_split_main_4) (simp add: example_df_def)

lemma example_split_mutated:
  "time_split example_df_mutated (float64 (7 / 10)) (float64 (15 / 100))
   = Inr (take 2 example_df, take 1 (drop 2 example_df_mutated), drop 3 example_df_mutated)"
proof -
  have "take 2 example_df_mutated = take 2 example_df"
    by (simp add: example_df_def example_df_mutated_def)
  then show ?thesis
    using time_split_main_4 [of example_df_mutated] by (simp add: example_df_mutated_def)
qed

lemma example_args_tickers: "arg_tickers example_args = None"
  by (simp add: example_args_def)

text \<open>
  The example file and its mutation: four rows each, the same first two rows after
  sorting, different rows after them, the same statistics.
\<close>

theorem fitted_stats_depend_on_train_only_witness:
  "load_dataset example_to_datetime example_parse_float example_csv (arg_tickers example_args)
     = Inr example_df
   \<and> load_dataset example_to_datetime example_parse_float example_csv_mutated
       (arg_tickers example_args) = Inr example_df_mutated
   \<and> time_split example_df (float64 (7 / 10)) (float64 (15 / 100))
       = Inr (take 2 example_df, take 1 (drop 2 example_df), drop 3 example_df)
   \<and> time_split example_df_mutated (float64 (7 / 10)) (float64 (15 / 100))
       = Inr (take 2 example_df, take 1 (drop 2 example_df_mutated), drop 3 example_df_mutated)
   \<and> example_df \<noteq> example_df_mutated
   \<and> scaler_json (snd (main_train example_to_datetime example_parse_float calm_torch
         example_args example_csv_mutated empty_world))
       = scaler_json (snd (main_train example_to_datetime example_parse_float calm_torch
         example_args example_csv empty_world))"
proof -
  have l1: "load_dataset example_to_datetime example_parse_float example_csv
              (arg_tickers example_args) = Inr example_df"
    by (simp only: example_args_tickers load_example)
  have l2: "load_dataset example_to_datetime example_parse_float example_csv_mutated
              (arg_tickers example_args) = Inr example_df_mutated"
    by (simp only: example_args_tickers load_example_mutated)
  have ne: "example_df \<noteq> example_df_mutated"
    by (simp add: example_df_def example_df_mutated_def)
  show ?thesis
    using fitted_stats_depend_on_train_only [OF l1 l2 example_split example_split_mutated,
        of calm_torch empty_world calm_torch empty_world]
      l1 l2 example_split example_split_mutated ne
    by blast
qed

section \<open>Too little data\<close>

lemma train_loop_error:
  "fst (train_loop T p es st) = Some e \<Longrightarrow>
   \<exists>k. t_train_one T k = Some e \<or> t_evaluate T k = Inl e \<or> t_save T k = Some e"
proof (induction es arbitrary: st)
  case Nil
  then show ?case by simp
next
  case (Cons k es)
  then show ?case
    by (auto simp add: Let_def split: option.splits sum.splits if_splits)
qed

lemma train_and_test_error:
  assumes "fst (train_and_test T a Xte w) = Some e"
  shows "e = FileNotFoundError \<or> e = ZeroDivisionError \<or> t_setup T = Some e
         \<or> (\<exists>k. t_train_one T k = Some e \<or> t_evaluate T k = Inl e \<or> t_save T k = Some e
                \<or> t_load T k = Some e \<or> t_test T k = Inl e)"
proof -
  let ?st0 = "\<lparr>best_val_acc = 0, patience_left = arg_patience a, wld = w, broke = False\<rparr>"
  let ?r = "train_loop T (arg_patience a) (py_range 1 (arg_epochs a + 1)) ?st0"
  obtain err st where r: "?r = (err, st)" by (cases ?r)
  show ?thesis
  proof (cases err)
    case None
    then show ?thesis
      using assms r
      by (auto simp add: train_and_test_def split: option.splits sum.splits if_splits)
  next
    case (Some e')
    then have "fst ?r = Some e'" using r by simp
    from train_loop_error [OF this] show ?thesis
      using assms r Some
      by (auto simp add: train_and_test_def split: option.splits)
  qed
qed

lemma train_and_test_foreign:
  assumes "torch_foreign T"
  shows "fst (train_and_test T a Xte w) \<noteq> Some not_enough_data"
proof
  assume "fst (train_and_test T a Xte w) = Some not_enough_data"
  from train_and_test_error [OF this] show False
    using assms by (auto simp add: torch_foreign_def) (simp_all add: not_enough_data_def)
qed

text \<open>
  With sequences in the train and the validation split the program goes on to PyTorch,
  and an exception of the first training pass leaves the program after the statistics
  were written.
\<close>

lemma main_train_first_pass_raises:
  assumes "load_dataset td pf csv (arg_tickers a) = Inr df"
    and "time_split df (float64 (7 / 10)) (float64 (15 / 100)) = Inr splits"
    and "standardize_splits (fit_standardizer (fst splits)) splits = Inr dfs"
    and "sequence_splits (arg_seq_len a) dfs = Inr ((Xtr, ytr), (Xva, yva), (Xte, yte))"
    and "Xtr \<noteq> []" and "Xva \<noteq> []"
    and "t_setup T = None" and "t_train_one T 1 = Some e" and "1 \<le> arg_epochs a"
  shows "main_train td pf T a csv w0
         = (Some e, w0\<lparr>scaler_json := Some (fit_standardizer (fst splits))\<rparr>)"
proof -
  have r: "py_range 1 (arg_epochs a + 1) = 1 # [2..arg_epochs a]"
    using assms(9) by (simp add: py_range_def upto_rec1)
  have "train_and_test T a Xte (w0\<lparr>scaler_json := Some (fit_standardizer (fst splits))\<rparr>)
        = (Some e, w0\<lparr>scaler_json := Some (fit_standardizer (fst splits))\<rparr>)"
    by (simp add: train_and_test_def assms(7,8) r)
  then show ?thesis
    unfolding main_train_def assms(1,2) sum.case
    by (simp add: Let_def assms(3-6))
qed

text \<open>
  C8. The training program ends with the RuntimeError "Not enough data after sequence
  building" (the specification's InsufficientDataError) exactly when the frame was loaded
  and split, the three splits were standardized and built into sequences, and the train
  split or the validation split gave no sequence; PyTorch is taken not to raise an
  exception with this message of its own. The exception leaves the program: the state it
  returns is the state at the raise, in which no training pass has run and no checkpoint
  and no metadata have been written.
\<close>

theorem insufficient_data_iff:
  assumes "torch_foreign T"
  shows "(fst (main_train td pf T a csv w0) = Some not_enough_data \<longleftrightarrow>
      (\<exists>df splits dfs Xtr ytr Xva yva Xte yte.
          load_dataset td pf csv (arg_tickers a) = Inr df
        \<and> time_split df (float64 (7 / 10)) (float64 (15 / 100)) = Inr splits
        \<and> standardize_splits (fit_standardizer (fst splits)) splits = Inr dfs
        \<and> sequence_splits (arg_seq_len a) dfs = Inr ((Xtr, ytr), (Xva, yva), (Xte, yte))
        \<and> (Xtr = [] \<or> Xva = [])))
   \<and> (fst (main_train td pf T a csv w0) = Some not_enough_data \<longrightarrow>
        epochs_trained (snd (main_train td pf T a csv w0)) = epochs_trained w0
      \<and> model_pt (snd (main_train td pf T a csv w0)) = model_pt w0
      \<and> meta_json (snd (main_train td pf T a csv w0)) = meta_json w0)"
proof -
  define F1 where "F1 = float64 (7 / 10)"
  define F2 where "F2 = float64 (15 / 100)"
  define P where "P \<longleftrightarrow> (\<exists>df splits dfs Xtr ytr Xva yva Xte yte.
          load_dataset td pf csv (arg_tickers a) = Inr df
        \<and> time_split df F1 F2 = Inr splits
        \<and> standardize_splits (fit_standardizer (fst splits)) splits = Inr dfs
        \<and> sequence_splits (arg_seq_len a) dfs = Inr ((Xtr, ytr), (Xva, yva), (Xte, yte))
        \<and> (Xtr = [] \<or> Xva = []))"
  define M where "M = main_train td pf T a csv w0"
  have M: "M = (case load_dataset td pf csv (arg_tickers a) of
        Inl e \<Rightarrow> (Some e, w0)
      | Inr df \<Rightarrow>
          (case time_split df F1 F2 of
             Inl e \<Rightarrow> (Some e, w0)
           | Inr splits \<Rightarrow>
               (let stats = fit_standardizer (fst splits);
                    w1 = w0\<lparr>scaler_json := Some stats\<rparr>
                in case standardize_splits stats splits of
                     Inl e \<Rightarrow> (Some e, w1)
                   | Inr dfs \<Rightarrow>
                       (case sequence_splits (arg_seq_len a) dfs of
                          Inl e \<Rightarrow> (Some e, w1)
                        | Inr ((Xtr, ytr), (Xva, yva), (Xte, yte)) \<Rightarrow>
                            if Xtr = [] \<or> Xva = [] then (Some not_enough_data, w1)
                            else train_and_test T a Xte w1))))"
    unfolding M_def F1_def F2_def main_train_def ..
  have main: "(fst M = Some not_enough_data \<longleftrightarrow> P)
      \<and> (fst M = Some not_enough_data \<longrightarrow>
           epochs_trained (snd M) = epochs_trained w0 \<and> model_pt (snd M) = model_pt w0
         \<and> meta_json (snd M) = meta_json w0)"
  proof (cases "load_dataset td pf csv (arg_tickers a)")
    case (Inl e)
    then have "e = ValueError" by (rule load_dataset_error)
    then show ?thesis using Inl by (simp add: M P_def not_enough_data_def)
  next
    case ld: (Inr df)
    show ?thesis
    proof (cases "time_split df F1 F2")
      case (Inl e)
      then have "e = ValueError \<or> e = OverflowError" by (rule time_split_error)
      then show ?thesis using Inl ld by (auto simp add: M P_def not_enough_data_def)
    next
      case ts: (Inr sp)
      show ?thesis
      proof (cases "standardize_splits (fit_standardizer (fst sp)) sp")
        case (Inl e)
        then have "e = KeyError" by (rule standardize_splits_error)
        then show ?thesis using Inl ld ts by (auto simp add: M P_def Let_def not_enough_data_def)
      next
        case std: (Inr dfs)
        show ?thesis
        proof (cases "sequence_splits (arg_seq_len a) dfs")
          case (Inl e)
          then have "e = IndexError \<or> e = ValueError" by (rule sequence_splits_error)
          then show ?thesis
            using Inl ld ts std by (auto simp add: M P_def Let_def not_enough_data_def)
        next
          case sq: (Inr seqs)
          obtain Xtr ytr Xva yva Xte yte where
            seqs: "seqs = ((Xtr, ytr), (Xva, yva), (Xte, yte))"
            by (metis prod.exhaust)
          have P: "P \<longleftrightarrow> (Xtr = [] \<or> Xva = [])"
          proof
            assume P
            then obtain df2 sp2 dfs2 X1 y1 X2 y2 X3 y3 where
              l: "load_dataset td pf csv (arg_tickers a) = Inr df2"
              and t: "time_split df2 F1 F2 = Inr sp2"
              and s: "standardize_splits (fit_standardizer (fst sp2)) sp2 = Inr dfs2"
              and q: "sequence_splits (arg_seq_len a) dfs2 = Inr ((X1, y1), (X2, y2), (X3, y3))"
              and e: "X1 = [] \<or> X2 = []"
              unfolding P_def by blast
            from l ld have "df2 = df" by simp
            with t ts have "sp2 = sp" by simp
            with s std have "dfs2 = dfs" by simp
            with q sq seqs have "X1 = Xtr" and "X2 = Xva" by simp_all
            with e show "Xtr = [] \<or> Xva = []" by simp
          next
            assume "Xtr = [] \<or> Xva = []"
            with ld ts std sq seqs show P unfolding P_def by blast
          qed
          show ?thesis
          proof (cases "Xtr = [] \<or> Xva = []")
            case True
            then have "M = (Some not_enough_data,
                            w0\<lparr>scaler_json := Some (fit_standardizer (fst sp))\<rparr>)"
              using ld ts std sq unfolding seqs by (simp add: M Let_def)
            then show ?thesis unfolding P using True by simp
          next
            case False
            then have "M = train_and_test T a Xte
                             (w0\<lparr>scaler_json := Some (fit_standardizer (fst sp))\<rparr>)"
              using ld ts std sq unfolding seqs by (simp add: M Let_def)
            then have "fst M \<noteq> Some not_enough_data"
              using train_and_test_foreign [OF assms] by simp
            then show ?thesis unfolding P using False by simp
          qed
        qed
      qed
    qed
  qed
  then show ?thesis unfolding P_def M_def F1_def F2_def .
qed

lemma standardize_splits_fit:
  "standardize_splits (fit_standardizer tr0) (a, b, c)
   = Inr (map (\<lambda>r. r\<lparr>feat := expected_cell (fit_standardizer tr0) r\<rparr>) a,
          map (\<lambda>r. r\<lparr>feat := expected_cell (fit_standardizer tr0) r\<rparr>) b,
          map (\<lambda>r. r\<lparr>feat := expected_cell (fit_standardizer tr0) r\<rparr>) c)"
proof -
  have "set FEATURES \<subseteq> dom (fit_standardizer tr0)"
    by (simp add: fit_standardizer_dom)
  then show ?thesis
    by (simp add: standardize_splits_def apply_standardizer_closed)
qed

lemma group_no_longer: "kg \<in> set (groupby_ticker df) \<Longrightarrow> length (snd kg) \<le> length df"
  by (auto simp add: groupby_ticker_def)

lemma make_sequences_short:
  assumes "0 < S" and "length df < S"
  shows "make_sequences df (int S) = Inr ([], [])"
proof -
  have "expected_windows S (snd kg) = [] \<and> expected_labels S (snd kg) = []"
    if "kg \<in> set (groupby_ticker df)" for kg
    using group_no_longer [OF that] assms(2)
    by (simp add: expected_windows_def expected_labels_def)
  then show ?thesis
    by (simp add: make_sequences_expected [OF assms(1)])
qed

lemma calm_torch_foreign: "torch_foreign calm_torch"
  by (simp add: torch_foreign_def calm_torch_def not_enough_data_def)

text \<open>The example file has four rows; with \<open>seq_len = 30\<close> no split gives a sequence.\<close>

theorem insufficient_data_iff_witness:
  "torch_foreign calm_torch
   \<and> fst (main_train example_to_datetime example_parse_float calm_torch
          example_args example_csv empty_world) = Some not_enough_data
   \<and> epochs_trained (snd (main_train example_to_datetime example_parse_float calm_torch
          example_args example_csv empty_world)) = 0
   \<and> model_pt (snd (main_train example_to_datetime example_parse_float calm_torch
          example_args example_csv empty_world)) = None"
proof -
  let ?sp = "(take 2 example_df, take 1 (drop 2 example_df), drop 3 example_df)"
  let ?stats = "fit_standardizer (fst ?sp)"
  let ?f = "\<lambda>r. r\<lparr>feat := expected_cell ?stats r\<rparr>"
  let ?dfs = "(map ?f (take 2 example_df), map ?f (take 1 (drop 2 example_df)),
               map ?f (drop 3 example_df))"
  have l: "load_dataset example_to_datetime example_parse_float example_csv
             (arg_tickers example_args) = Inr example_df"
    by (simp only: example_args_tickers load_example)
  have s: "standardize_splits ?stats ?sp = Inr ?dfs"
    by (rule standardize_splits_fit)
  have short: "make_sequences df 30 = Inr ([], [])" if "length df < 30" for df
    using make_sequences_short [of 30 df] that by simp
  have q: "sequence_splits (arg_seq_len example_args) ?dfs = Inr (([], []), ([], []), ([], []))"
    by (simp add: sequence_splits_def example_args_def short example_df_def)
  have "\<exists>df splits dfs Xtr ytr Xva yva Xte yte.
          load_dataset example_to_datetime example_parse_float example_csv
             (arg_tickers example_args) = Inr df
        \<and> time_split df (float64 (7 / 10)) (float64 (15 / 100)) = Inr splits
        \<and> standardize_splits (fit_standardizer (fst splits)) splits = Inr dfs
        \<and> sequence_splits (arg_seq_len example_args) dfs
            = Inr ((Xtr, ytr), (Xva, yva), (Xte, yte))
        \<and> (Xtr = [] \<or> Xva = [])"
    using l example_split s q by blast
  then show ?thesis
    using insufficient_data_iff [OF calm_torch_foreign, of example_to_datetime
        example_parse_float example_args example_csv empty_world] calm_torch_foreign
    by (simp add: empty_world_def)
qed

section \<open>Configuration values that the specification calls invalid\<close>

lemma sublist_py_slice: "sublist (py_slice xs a b) xs"
proof -
  have "sublist (take n (drop m xs)) xs" for n m
    using sublist_order.order_trans [OF sublist_take sublist_drop] .
  then show ?thesis by (simp add: py_slice_def Let_def)
qed

lemma time_split_sublists:
  "time_split df train_frac val_frac = Inr (a, b, c) \<Longrightarrow>
   sublist a df \<and> sublist b df \<and> sublist c df"
  by (auto simp add: time_split_def sublist_py_slice split: sum.splits)

lemma time_split_returns:
  assumes "float64 train_frac = Fin train_frac" and "float64 val_frac = Fin val_frac"
    and "0 < train_frac" and "0 < val_frac" and "train_frac + val_frac < 1"
    and "length df < 2 ^ 53"
  shows "\<exists>a b c. time_split df (Fin train_frac) (Fin val_frac) = Inr (a, b, c)"
  using time_split_cuts [OF assms] by blast

lemma upto_nth_all: "map (\<lambda>t. xs ! nat t) [0..int (length xs) - 1] = xs"
  by (rule nth_equalityI) simp_all

lemma empty_window: "py_slice feats (Some (t + 1)) (Some (t + 1)) = []"
  by (simp add: py_slice_def Let_def)

lemma window_loop_zero:
  assumes "labels \<noteq> []"
  shows "window_loop feats labels 0 (py_range (0 - 1) (int (length labels))) (X, y)
         = Inr (X @ replicate (length labels + 1) [], y @ last labels # labels)"
proof -
  let ?ts = "[0..int (length labels) - 1]"
  have r: "py_range (0 - 1) (int (length labels)) = (- 1) # ?ts"
    using assms by (simp add: py_range_def upto_rec1)
  have i: "py_index labels (- 1) = Inr (last labels)"
  proof -
    have "Suc 0 \<le> length labels" using assms by (cases labels) simp_all
    then show ?thesis
      using assms by (simp add: py_index_def last_conv_nth nat_diff_distrib)
  qed
  have first: "py_slice feats (Some (- 1 - 0 + 1)) (Some (- 1 + 1)) = []"
    by (simp add: py_slice_def slice_index_def Let_def)
  have rest: "\<forall>t\<in>set ?ts. 0 \<le> t \<and> t < int (length labels)"
    by simp
  have e: "map (\<lambda>t. py_slice feats (Some (t - 0 + 1)) (Some (t + 1))) ?ts
           = replicate (length labels) []"
    by (simp add: empty_window) (simp add: map_replicate_const)
  have "window_loop feats labels 0 ((- 1) # ?ts) (X, y)
        = window_loop feats labels 0 ?ts (X @ [[]], y @ [last labels])"
    by (simp only: window_loop.simps i first sum.case)
  also have "\<dots> = Inr ((X @ [[]]) @ replicate (length labels) [],
                        (y @ [last labels]) @ labels)"
    by (simp only: window_loop_in_range [OF rest] e upto_nth_all)
  also have "\<dots> = Inr (X @ replicate (length labels + 1) [], y @ last labels # labels)"
    by simp
  finally show ?thesis by (simp only: r)
qed

lemma groups_nonempty: "kg \<in> set (groupby_ticker df) \<Longrightarrow> snd kg \<noteq> []"
  by (auto simp add: groupby_ticker_def filter_empty_conv)

lemma group_loop_zero:
  assumes "\<forall>kg\<in>set gs. snd kg \<noteq> []"
  shows "group_loop gs 0 (X, y)
         = Inr (X @ concat (map (\<lambda>kg. replicate (length (snd kg) + 1) ([] :: window)) gs),
                y @ concat (map (\<lambda>kg. last (float32_labels (snd kg)) # float32_labels (snd kg)) gs))"
  using assms
proof (induction gs arbitrary: X y)
  case Nil
  show ?case by simp
next
  case (Cons kg gs)
  obtain k g where kg: "kg = (k, g)" by (cases kg)
  have g: "float32_labels g \<noteq> []" using Cons.prems by (simp add: kg float32_labels_def)
  have rest: "\<forall>kg\<in>set gs. snd kg \<noteq> []" using Cons.prems by simp
  show ?case
    using window_loop_zero [OF g [unfolded float32_labels_def], of "map (\<lambda>r. map (\<lambda>c. astype_float32 (feat r c)) FEATURES) g" X y]
    by (simp add: kg Let_def Cons.IH [OF rest] float32_labels_def)
qed

lemma all_empty_windows:
  "w \<in> set (concat (map (\<lambda>kg. replicate (n kg) ([] :: window)) gs)) \<Longrightarrow> w = []"
  by (induction gs) auto

lemma make_sequences_zero:
  "make_sequences df 0
   = Inr (concat (map (\<lambda>kg. replicate (length (snd kg) + 1) ([] :: window)) (groupby_ticker df)),
          concat (map (\<lambda>kg. last (float32_labels (snd kg)) # float32_labels (snd kg)) (groupby_ticker df)))"
proof -
  define X where "X = concat (map (\<lambda>kg. replicate (length (snd kg) + 1) ([] :: window)) (groupby_ticker df))"
  define y where "y = concat (map (\<lambda>kg. last (float32_labels (snd kg)) # float32_labels (snd kg)) (groupby_ticker df))"
  have ne: "\<forall>kg\<in>set (groupby_ticker df). snd kg \<noteq> []"
    by (simp add: groups_nonempty)
  have gl: "group_loop (groupby_ticker df) 0 ([], []) = Inr (X, y)"
    unfolding X_def y_def using group_loop_zero [OF ne, of "[]" "[]"] by simp
  have all: "\<forall>w\<in>set X. w = []"
  proof
    fix w assume "w \<in> set X"
    then show "w = []"
      unfolding X_def by (rule all_empty_windows)
  qed
  have "make_sequences df 0 = Inr (X, y)"
  proof (cases "X = []")
    case True
    then show ?thesis by (simp add: make_sequences_def gl)
  next
    case False
    then have "hd X \<in> set X" by (rule hd_in_set)
    then have "hd X = []" using all by blast
    then have "list_all (\<lambda>w. length w = length (hd X)) X"
      using all by (simp add: list_all_iff)
    then show ?thesis using False by (simp add: make_sequences_def gl)
  qed
  then show ?thesis by (simp only: X_def y_def)
qed

text \<open>
  With a negative \<open>seq_len\<close> the loop of a group of length \<open>L\<close> starts at
  \<open>t = seq_len - 1\<close>, below 0. Either the label index is out of range there, or the
  first window has \<open>L + seq_len\<close> rows and the last window none, so that
  \<open>np.stack\<close> raises.
\<close>

lemma window_loop_result:
  "window_loop fs ls sl ts (X, y) = Inr (X', y') \<Longrightarrow>
   X' = X @ map (\<lambda>t. py_slice fs (Some (t - sl + 1)) (Some (t + 1))) ts
   \<and> (\<forall>t\<in>set ts. - int (length ls) \<le> t)"
proof (induction ts arbitrary: X y)
  case Nil
  then show ?case by simp
next
  case (Cons t ts)
  let ?W = "\<lambda>t. py_slice fs (Some (t - sl + 1)) (Some (t + 1))"
  from Cons.prems obtain lab where
    lab: "py_index ls t = Inr lab"
    and rest: "window_loop fs ls sl ts (X @ [?W t], y @ [lab]) = Inr (X', y')"
    by (auto split: sum.splits)
  from lab have "- int (length ls) \<le> t"
    by (simp add: py_index_def split: if_splits)
  with Cons.IH [OF rest] show ?case by simp
qed

lemma group_loop_step:
  "group_loop ((k, g) # gs) sl acc
   = (case window_loop (map feature_vector g) (float32_labels g) sl
             (py_range (sl - 1) (int (length g))) acc of
        Inl e \<Rightarrow> Inl e
      | Inr acc' \<Rightarrow> group_loop gs sl acc')"
proof -
  have "feature_vector = (\<lambda>r. map (\<lambda>c. astype_float32 (feat r c)) FEATURES)"
    by (rule ext) (simp add: feature_vector_def)
  then show ?thesis by (simp add: Let_def float32_labels_def)
qed

lemma group_loop_result:
  "group_loop gs sl (X, y) = Inr (X', y') \<Longrightarrow> kg \<in> set gs \<Longrightarrow>
   t \<in> set (py_range (sl - 1) (int (length (snd kg)))) \<Longrightarrow>
   py_slice (map feature_vector (snd kg)) (Some (t - sl + 1)) (Some (t + 1)) \<in> set X'
   \<and> - int (length (snd kg)) \<le> t"
proof (induction gs arbitrary: X y)
  case Nil
  then show ?case by simp
next
  case (Cons kg' gs)
  obtain k g where kg': "kg' = (k, g)" by (cases kg')
  let ?wl = "window_loop (map feature_vector g) (float32_labels g) sl
               (py_range (sl - 1) (int (length g))) (X, y)"
  from Cons.prems(1) obtain X1 y1 where
    wl: "?wl = Inr (X1, y1)" and gl: "group_loop gs sl (X1, y1) = Inr (X', y')"
    unfolding kg' group_loop_step by (auto split: sum.splits)
  note res = window_loop_result [OF wl]
  have keep: "set X1 \<subseteq> set X'"
    using gl
  proof (induction gs arbitrary: X1 y1)
    case Nil
    then show ?case by simp
  next
    case (Cons kg2 gs)
    obtain k2 g2 where kg2: "kg2 = (k2, g2)" by (cases kg2)
    from Cons.prems obtain X2 y2 where
      w2: "window_loop (map feature_vector g2) (float32_labels g2) sl
             (py_range (sl - 1) (int (length g2))) (X1, y1) = Inr (X2, y2)"
      and g2: "group_loop gs sl (X2, y2) = Inr (X', y')"
      unfolding kg2 group_loop_step by (auto split: sum.splits)
    have "set X1 \<subseteq> set X2" using window_loop_result [OF w2] by auto
    with Cons.IH [OF g2] show ?case by blast
  qed
  show ?case
  proof (cases "kg = kg'")
    case True
    then show ?thesis
      using res keep Cons.prems(3) by (auto simp add: kg' float32_labels_def)
  next
    case False
    then have "kg \<in> set gs" using Cons.prems(2) by simp
    from Cons.IH [OF gl this Cons.prems(3)] show ?thesis .
  qed
qed

lemma make_sequences_negative:
  assumes "sl < 0"
  shows "make_sequences df sl = Inl IndexError \<or> make_sequences df sl = Inl ValueError"
proof (cases "group_loop (groupby_ticker df) sl ([], [])")
  case (Inl e)
  then have "e = IndexError" by (rule group_loop_error)
  then show ?thesis using Inl by (simp add: make_sequences_def)
next
  case (Inr acc)
  obtain X y where acc: "acc = (X, y)" by (cases acc)
  show ?thesis
  proof (cases "groupby_ticker df")
    case Nil
    then have "X = []" using Inr acc by simp
    then show ?thesis using Inr acc assms by (simp add: make_sequences_def)
  next
    case (Cons kg gs)
    then have kg: "kg \<in> set (groupby_ticker df)" by simp
    define L where "L = int (length (snd kg))"
    have L: "0 < L" using groups_nonempty [OF kg] by (simp add: L_def)
    let ?W = "\<lambda>t. py_slice (map feature_vector (snd kg)) (Some (t - sl + 1)) (Some (t + 1))"
    have t0: "sl - 1 \<in> set (py_range (sl - 1) L)" and t1: "L - 1 \<in> set (py_range (sl - 1) L)"
      using assms L by (simp_all add: py_range_def)
    from group_loop_result [OF Inr [unfolded acc] kg t0 [unfolded L_def]]
    have w0: "?W (sl - 1) \<in> set X" and low: "- L \<le> sl - 1" by (simp_all add: L_def)
    from group_loop_result [OF Inr [unfolded acc] kg t1 [unfolded L_def]]
    have w1: "?W (L - 1) \<in> set X" by (simp add: L_def)
    have l0: "length (?W (sl - 1)) = nat (L + sl)"
      using assms low L by (simp add: py_slice_def slice_index_def L_def max_def)
    have l1: "length (?W (L - 1)) = 0"
      using assms L by (simp add: py_slice_def slice_index_def L_def)
    have "0 < nat (L + sl)" using low by simp
    have "\<not> list_all (\<lambda>w. length w = length (hd X)) X"
    proof
      assume "list_all (\<lambda>w. length w = length (hd X)) X"
      then have "\<forall>w\<in>set X. length w = length (hd X)" by (simp add: list_all_iff)
      with w0 w1 have "length (?W (sl - 1)) = length (?W (L - 1))" by simp
      with l0 l1 \<open>0 < nat (L + sl)\<close> show False by simp
    qed
    moreover have "X \<noteq> []" using w0 by auto
    ultimately show ?thesis using Inr acc by (simp add: make_sequences_def)
  qed
qed

lemma float32_zero: "float32 0 = Fin 0"
  by (simp add: float32_def round_binary_def round_to_def)

text \<open>
  C9 (as the code has it). Neither function checks its configuration, and there is no
  ConfigError. \<open>time_split\<close> multiplies the row count by whatever floats it is
  given: what it returns are three slices, each a run of consecutive rows of the data
  set; what it raises is the ValueError or the OverflowError of \<open>int\<close>, for a product
  that is NaN or infinite; and for positive float fractions with a sum below 1 and fewer
  than \<open>2^53\<close> rows it returns. \<open>make_sequences\<close> takes \<open>seq_len = 0\<close> and
  computes with it: for each ticker group of length \<open>L\<close> it returns \<open>L + 1\<close>
  windows with no rows, labelled with the last label of the group and then the labels of
  the group in order. With a negative \<open>seq_len\<close> it raises the IndexError or a
  ValueError of numpy, in or after its loop; these are the only exceptions it raises for
  any \<open>seq_len\<close>.
\<close>

theorem no_config_validation:
  "(\<forall>a b c. time_split df train_frac val_frac = Inr (a, b, c) \<longrightarrow>
       sublist a df \<and> sublist b df \<and> sublist c df)
   \<and> (\<forall>e. time_split df train_frac val_frac = Inl e \<longrightarrow> e = ValueError \<or> e = OverflowError)
   \<and> (\<forall>p q. float64 p = Fin p \<and> float64 q = Fin q \<and> 0 < p \<and> 0 < q \<and> p + q < 1
             \<and> length df < 2 ^ 53 \<longrightarrow>
         (\<exists>a b c. time_split df (Fin p) (Fin q) = Inr (a, b, c)))
   \<and> make_sequences rows 0
       = Inr (concat (map (\<lambda>kg. replicate (length (snd kg) + 1) ([] :: window)) (groupby_ticker rows)),
              concat (map (\<lambda>kg. last (float32_labels (snd kg)) # float32_labels (snd kg))
                        (groupby_ticker rows)))
   \<and> (seq_len < 0 \<longrightarrow>
         make_sequences rows seq_len = Inl IndexError
       \<or> make_sequences rows seq_len = Inl ValueError)
   \<and> (\<forall>e. make_sequences rows seq_len = Inl e \<longrightarrow> e = IndexError \<or> e = ValueError)"
proof (intro conjI allI impI)
  fix a b c assume "time_split df train_frac val_frac = Inr (a, b, c)"
  from time_split_sublists [OF this]
  show "sublist a df" and "sublist b df" and "sublist c df" by simp_all
next
  fix e assume "time_split df train_frac val_frac = Inl e"
  then show "e = ValueError \<or> e = OverflowError" by (rule time_split_error)
next
  fix p q :: real
  assume "float64 p = Fin p \<and> float64 q = Fin q \<and> 0 < p \<and> 0 < q \<and> p + q < 1
          \<and> length df < 2 ^ 53"
  then show "\<exists>a b c. time_split df (Fin p) (Fin q) = Inr (a, b, c)"
    by (intro time_split_returns) simp_all
next
  show "make_sequences rows 0
       = Inr (concat (map (\<lambda>kg. replicate (length (snd kg) + 1) ([] :: window)) (groupby_ticker rows)),
              concat (map (\<lambda>kg. last (float32_labels (snd kg)) # float32_labels (snd kg))
                        (groupby_ticker rows)))"
    by (rule make_sequences_zero)
next
  assume "seq_len < 0"
  then show "make_sequences rows seq_len = Inl IndexError
             \<or> make_sequences rows seq_len = Inl ValueError"
    by (rule make_sequences_negative)
next
  fix e assume "make_sequences rows seq_len = Inl e"
  then show "e = IndexError \<or> e = ValueError" by (rule make_sequences_error)
qed

lemma four_rows_float: "float64 (real (length [0, 1, 2, 3 :: nat])) = Fin 4"
  using float64_nat [of 4] by simp

lemma float64_dyadic:
  "float64 (4 * (3 / 2)) = Fin 6" "float64 (3 / 2 + 3 / 4) = Fin (9 / 4)"
  "float64 (4 * (9 / 4)) = Fin 9" "float64 (4 * (- 1 / 2)) = Fin (- 2)"
  "float64 (- 1 / 2 + 1 / 8) = Fin (- 3 / 8)" "float64 (4 * (- 3 / 8)) = Fin (- 3 / 2)"
  "float64 (3 / 2) = Fin (3 / 2)" "float64 (3 / 4) = Fin (3 / 4)"
proof -
  have "float64 6 = Fin 6"
    unfolding float64_def by (rule round_binary_exact [where m = 6 and k = 0]) simp_all
  then show "float64 (4 * (3 / 2)) = Fin 6" by simp
  have "float64 (9 / 4) = Fin (9 / 4)"
    unfolding float64_def by (rule round_binary_exact [where m = 9 and k = "- 2"]) simp_all
  then show "float64 (3 / 2 + 3 / 4) = Fin (9 / 4)" by simp
  have "float64 9 = Fin 9"
    unfolding float64_def by (rule round_binary_exact [where m = 9 and k = 0]) simp_all
  then show "float64 (4 * (9 / 4)) = Fin 9" by simp
  have "float64 (- 2) = Fin (- 2)"
    unfolding float64_def by (rule round_binary_exact [where m = "- 2" and k = 0]) simp_all
  then show "float64 (4 * (- 1 / 2)) = Fin (- 2)" by simp
  have "float64 (- 3 / 8) = Fin (- 3 / 8)"
    unfolding float64_def by (rule round_binary_exact [where m = "- 3" and k = "- 3"]) simp_all
  then show "float64 (- 1 / 2 + 1 / 8) = Fin (- 3 / 8)" by simp
  have "float64 (- 3 / 2) = Fin (- 3 / 2)"
    unfolding float64_def by (rule round_binary_exact [where m = "- 3" and k = "- 1"]) simp_all
  then show "float64 (4 * (- 3 / 8)) = Fin (- 3 / 2)" by simp
  show "float64 (3 / 2) = Fin (3 / 2)"
    unfolding float64_def by (rule round_binary_exact [where m = 3 and k = "- 1"]) simp_all
  show "float64 (3 / 4) = Fin (3 / 4)"
    unfolding float64_def by (rule round_binary_exact [where m = 3 and k = "- 2"]) simp_all
qed

lemma time_split_above_one:
  "time_split [0, 1, 2, 3 :: nat] (Fin (3 / 2)) (Fin (3 / 4)) = Inr ([0, 1, 2, 3], [], [])"
  unfolding time_split_eval [OF four_rows_float float64_dyadic(1,2,3)]
  by (simp add: py_int_def py_slice_def slice_index_def)

lemma time_split_below_zero:
  "time_split [0, 1, 2, 3 :: nat] (Fin (- 1 / 2)) (Fin (1 / 8)) = Inr ([0, 1], [2], [3])"
  unfolding time_split_eval [OF four_rows_float float64_dyadic(4,5,6)]
  by (simp add: py_int_def py_slice_def slice_index_def)

lemma time_split_nan: "time_split [0, 1, 2, 3 :: nat] NaN (Fin (3 / 4)) = Inl ValueError"
  using four_rows_float
  by (simp add: time_split_def float_of_int_def dmul_def int_of_float_def)

lemma two_rows_group: "groupby_ticker two_rows = [(''AAPL'', two_rows)]"
  by (simp add: groupby_ticker_def two_rows_def)

lemma make_sequences_two_rows_zero:
  "make_sequences two_rows 0 = Inr ([[], [], []], [Fin 1, Fin 0, Fin 1])"
  by (simp add: make_sequences_zero two_rows_group)
     (simp add: two_rows_def float32_labels_def astype_float32_def float32_one float32_zero)

text \<open>
  Fractions above 1, a negative fraction, a fraction that is NaN, \<open>seq_len = 0\<close> and
  \<open>seq_len = -1\<close>: what is returned are slices and empty windows, what is raised is a
  ValueError.
\<close>

theorem no_config_validation_witness:
  "time_split [0, 1, 2, 3 :: nat] (Fin (3 / 2)) (Fin (3 / 4)) = Inr ([0, 1, 2, 3], [], [])
   \<and> sublist [0, 1, 2, 3 :: nat] [0, 1, 2, 3] \<and> sublist [] [0, 1, 2, 3 :: nat]
   \<and> time_split [0, 1, 2, 3 :: nat] NaN (Fin (3 / 4)) = Inl ValueError
   \<and> float64 (6305039478318694 / 2 ^ 53) = Fin (6305039478318694 / 2 ^ 53)
   \<and> float64 (5404319552844595 / 2 ^ 55) = Fin (5404319552844595 / 2 ^ 55)
   \<and> (\<exists>a b c. time_split [0, 1, 2, 3 :: nat] (Fin (6305039478318694 / 2 ^ 53))
                 (Fin (5404319552844595 / 2 ^ 55)) = Inr (a, b, c))
   \<and> make_sequences two_rows 0 = Inr ([[], [], []], [Fin 1, Fin 0, Fin 1])
   \<and> make_sequences two_rows (- 1) = Inl ValueError"
proof -
  note a = no_config_validation [of "[0, 1, 2, 3 :: nat]" "Fin (3 / 2)" "Fin (3 / 4)" two_rows "- 1"]
  note b = no_config_validation [of "[0, 1, 2, 3 :: nat]" NaN "Fin (3 / 4)" two_rows "- 1"]
  from a time_split_above_one
  have s: "sublist [0, 1, 2, 3 :: nat] [0, 1, 2, 3] \<and> sublist [] [0, 1, 2, 3 :: nat]"
    by blast
  have lt: "(6305039478318694 / 2 ^ 53 + 5404319552844595 / 2 ^ 55 :: real) < 1" by simp
  from a float64_070_fixed float64_015_fixed lt
  have r: "\<exists>a b c. time_split [0, 1, 2, 3 :: nat] (Fin (6305039478318694 / 2 ^ 53))
                 (Fin (5404319552844595 / 2 ^ 55)) = Inr (a, b, c)"
    by simp
  have "group_loop [(''AAPL'', two_rows)] (- 1) ([], []) \<noteq> Inl IndexError"
    by (simp add: two_rows_def py_range_def upto_rec1 py_index_def Let_def)
  then have "make_sequences two_rows (- 1) \<noteq> Inl IndexError"
    unfolding make_sequences_def two_rows_group by (simp split: sum.splits prod.splits)
  with a have n: "make_sequences two_rows (- 1) = Inl ValueError" by simp
  from b time_split_nan have "ValueError = ValueError \<or> ValueError = OverflowError" by blast
  with time_split_above_one s time_split_nan float64_070_fixed float64_015_fixed r
    make_sequences_two_rows_zero n
  show ?thesis by blast
qed

text \<open>
  Fractions above 1, a negative fraction, and \<open>seq_len = 0\<close>: each call returns a
  result, and none raises.
\<close>

theorem invalid_configuration_accepted:
  "time_split [0, 1, 2, 3 :: nat] (Fin (3 / 2)) (Fin (3 / 4)) = Inr ([0, 1, 2, 3], [], [])
   \<and> time_split [0, 1, 2, 3 :: nat] (Fin (- 1 / 2)) (Fin (1 / 8)) = Inr ([0, 1], [2], [3])
   \<and> make_sequences two_rows 0 = Inr ([[], [], []], [Fin 1, Fin 0, Fin 1])"
  using time_split_above_one time_split_below_zero make_sequences_two_rows_zero
  by (intro conjI)

section \<open>The sequence length of the predictor\<close>

lemma predict_seq_len_meta: "meta ''seq_len'' = Some v \<Longrightarrow> predict_seq_len meta arg = v"
  by (simp add: predict_seq_len_def)

text \<open>
  C10. The predictor takes its sequence length from \<open>meta.json\<close> whenever the
  metadata has a \<open>seq_len\<close> entry, and from the command line only when it has none.
  With such an entry the whole result of the program (an exception, "No sequences to
  score", or the printed predictions) is the one computed with the metadata value, and
  two runs that differ in the supplied \<open>--seq-len\<close> only give the same result. With
  an integer entry \<open>n\<close> the sequences scored are those of \<open>make_sequences\<close> for
  \<open>n\<close>: for a positive \<open>n\<close>, the windows of \<open>n\<close> rows of each ticker group of
  the standardized frame. Without an entry they are those of \<open>make_sequences\<close> for
  the supplied value.
\<close>

theorem predictor_uses_metadata_seq_len:
  "(meta ''seq_len'' = Some v \<longrightarrow> predict_seq_len meta arg1 = v)
   \<and> (meta ''seq_len'' = None \<longrightarrow> predict_seq_len meta arg1 = JInt arg1)
   \<and> (meta_json w = Some meta \<and> meta ''seq_len'' = Some v \<longrightarrow>
        predict_main td pf lm arg1 tickers csv w = predict_main td pf lm arg2 tickers csv w
      \<and> predict_main td pf lm arg1 tickers csv w
          = (case scaler_json w of
               None \<Rightarrow> Inl FileNotFoundError
             | Some stats \<Rightarrow>
                 (case load_dataset td pf csv tickers of
                    Inl e \<Rightarrow> Inl e
                  | Inr df \<Rightarrow>
                      (case apply_standardizer df stats of
                         Inl e \<Rightarrow> Inl e
                       | Inr df' \<Rightarrow>
                           (case make_sequences_json df' v of
                              Inl e \<Rightarrow> Inl e
                            | Inr (X, y) \<Rightarrow>
                                if X = [] then Inr NoSequences
                                else score_sequences lm meta (model_pt w) X)))))
   \<and> (meta_json w = Some meta \<and> meta ''seq_len'' = Some (JInt n) \<longrightarrow>
        predict_main td pf lm arg1 tickers csv w
          = (case scaler_json w of
               None \<Rightarrow> Inl FileNotFoundError
             | Some stats \<Rightarrow>
                 (case load_dataset td pf csv tickers of
                    Inl e \<Rightarrow> Inl e
                  | Inr df \<Rightarrow>
                      (case apply_standardizer df stats of
                         Inl e \<Rightarrow> Inl e
                       | Inr df' \<Rightarrow>
                           (case make_sequences df' n of
                              Inl e \<Rightarrow> Inl e
                            | Inr (X, y) \<Rightarrow>
                                if X = [] then Inr NoSequences
                                else score_sequences lm meta (model_pt w) X)))))
   \<and> (meta_json w = Some meta \<and> meta ''seq_len'' = Some (JInt (int S)) \<and> 0 < S
        \<and> scaler_json w = Some stats \<and> load_dataset td pf csv tickers = Inr df
        \<and> apply_standardizer df stats = Inr df' \<longrightarrow>
        predict_main td pf lm arg1 tickers csv w
          = (if concat (map (\<lambda>kg. expected_windows S (snd kg)) (groupby_ticker df')) = []
             then Inr NoSequences
             else score_sequences lm meta (model_pt w)
                    (concat (map (\<lambda>kg. expected_windows S (snd kg)) (groupby_ticker df')))))
   \<and> (meta_json w = Some meta \<and> meta ''seq_len'' = None \<longrightarrow>
        predict_main td pf lm arg1 tickers csv w
          = (case scaler_json w of
               None \<Rightarrow> Inl FileNotFoundError
             | Some stats \<Rightarrow>
                 (case load_dataset td pf csv tickers of
                    Inl e \<Rightarrow> Inl e
                  | Inr df \<Rightarrow>
                      (case apply_standardizer df stats of
                         Inl e \<Rightarrow> Inl e
                       | Inr df' \<Rightarrow>
                           (case make_sequences df' arg1 of
                              Inl e \<Rightarrow> Inl e
                            | Inr (X, y) \<Rightarrow>
                                if X = [] then Inr NoSequences
                                else score_sequences lm meta (model_pt w) X)))))"
proof (intro conjI impI)
  assume "meta ''seq_len'' = Some v"
  then show "predict_seq_len meta arg1 = v" by (rule predict_seq_len_meta)
next
  assume "meta ''seq_len'' = None"
  then show "predict_seq_len meta arg1 = JInt arg1" by (simp add: predict_seq_len_def)
next
  assume h: "meta_json w = Some meta \<and> meta ''seq_len'' = Some v"
  then have m: "meta_json w = Some meta" and k: "predict_seq_len meta arg = v" for arg
    by (simp_all add: predict_seq_len_meta)
  show "predict_main td pf lm arg1 tickers csv w = predict_main td pf lm arg2 tickers csv w"
    by (simp only: predict_main_def m option.case k)
  show "predict_main td pf lm arg1 tickers csv w
          = (case scaler_json w of
               None \<Rightarrow> Inl FileNotFoundError
             | Some stats \<Rightarrow>
                 (case load_dataset td pf csv tickers of
                    Inl e \<Rightarrow> Inl e
                  | Inr df \<Rightarrow>
                      (case apply_standardizer df stats of
                         Inl e \<Rightarrow> Inl e
                       | Inr df' \<Rightarrow>
                           (case make_sequences_json df' v of
                              Inl e \<Rightarrow> Inl e
                            | Inr (X, y) \<Rightarrow>
                                if X = [] then Inr NoSequences
                                else score_sequences lm meta (model_pt w) X))))"
    by (simp only: predict_main_def m option.case k)
next
  assume h: "meta_json w = Some meta \<and> meta ''seq_len'' = Some (JInt n)"
  then have m: "meta_json w = Some meta" and k: "predict_seq_len meta arg1 = JInt n"
    by (simp_all add: predict_seq_len_meta)
  have j: "make_sequences_json d (JInt n) = make_sequences d n" for d
    by (simp add: make_sequences_json_def)
  show "predict_main td pf lm arg1 tickers csv w
          = (case scaler_json w of
               None \<Rightarrow> Inl FileNotFoundError
             | Some stats \<Rightarrow>
                 (case load_dataset td pf csv tickers of
                    Inl e \<Rightarrow> Inl e
                  | Inr df \<Rightarrow>
                      (case apply_standardizer df stats of
                         Inl e \<Rightarrow> Inl e
                       | Inr df' \<Rightarrow>
                           (case make_sequences df' n of
                              Inl e \<Rightarrow> Inl e
                            | Inr (X, y) \<Rightarrow>
                                if X = [] then Inr NoSequences
                                else score_sequences lm meta (model_pt w) X))))"
    by (simp only: predict_main_def m option.case k j)
next
  assume h: "meta_json w = Some meta \<and> meta ''seq_len'' = Some (JInt (int S)) \<and> 0 < S
        \<and> scaler_json w = Some stats \<and> load_dataset td pf csv tickers = Inr df
        \<and> apply_standardizer df stats = Inr df'"
  then have m: "meta_json w = Some meta" and k: "predict_seq_len meta arg1 = JInt (int S)"
    and S: "0 < S" and s: "scaler_json w = Some stats"
    and l: "load_dataset td pf csv tickers = Inr df" and a: "apply_standardizer df stats = Inr df'"
    by (simp_all add: predict_seq_len_meta)
  have j: "make_sequences_json df' (JInt (int S))
           = Inr (concat (map (\<lambda>kg. expected_windows S (snd kg)) (groupby_ticker df')),
                  concat (map (\<lambda>kg. expected_labels S (snd kg)) (groupby_ticker df')))"
    by (simp add: make_sequences_json_def make_sequences_expected [OF S])
  show "predict_main td pf lm arg1 tickers csv w
          = (if concat (map (\<lambda>kg. expected_windows S (snd kg)) (groupby_ticker df')) = []
             then Inr NoSequences
             else score_sequences lm meta (model_pt w)
                    (concat (map (\<lambda>kg. expected_windows S (snd kg)) (groupby_ticker df'))))"
    by (simp only: predict_main_def m s l a k j option.case sum.case prod.case)
next
  assume h: "meta_json w = Some meta \<and> meta ''seq_len'' = None"
  then have m: "meta_json w = Some meta" and k: "predict_seq_len meta arg1 = JInt arg1"
    by (simp_all add: predict_seq_len_def)
  have j: "make_sequences_json d (JInt n) = make_sequences d n" for d n
    by (simp add: make_sequences_json_def)
  show "predict_main td pf lm arg1 tickers csv w
          = (case scaler_json w of
               None \<Rightarrow> Inl FileNotFoundError
             | Some stats \<Rightarrow>
                 (case load_dataset td pf csv tickers of
                    Inl e \<Rightarrow> Inl e
                  | Inr df \<Rightarrow>
                      (case apply_standardizer df stats of
                         Inl e \<Rightarrow> Inl e
                       | Inr df' \<Rightarrow>
                           (case make_sequences df' arg1 of
                              Inl e \<Rightarrow> Inl e
                            | Inr (X, y) \<Rightarrow>
                                if X = [] then Inr NoSequences
                                else score_sequences lm meta (model_pt w) X))))"
    by (simp only: predict_main_def m option.case k j)
qed

lemma trained_world_meta:
  "meta_json trained_world = Some (meta_of (example_args\<lparr>arg_seq_len := 2\<rparr>) (1 / 2))
   \<and> meta_of (example_args\<lparr>arg_seq_len := 2\<rparr>) (1 / 2) ''seq_len'' = Some (JInt 2)"
  by (simp add: trained_world_def meta_of_def)

lemma example_standardized_groups:
  "groupby_ticker (map (\<lambda>r. r\<lparr>feat := expected_cell example_stats r\<rparr>) example_df)
   = [(''AAPL'', map (\<lambda>r. r\<lparr>feat := expected_cell example_stats r\<rparr>) (take 3 example_df)),
      (''MSFT'', map (\<lambda>r. r\<lparr>feat := expected_cell example_stats r\<rparr>) (drop 3 example_df))]"
  by (simp add: groupby_ticker_def example_df_def)

lemma sigmoid_zero: "sigmoid 0 = 1 / 2"
  by (simp add: sigmoid_def)

lemma example_standardized:
  "apply_standardizer example_df example_stats
   = Inr (map (\<lambda>r. r\<lparr>feat := expected_cell example_stats r\<rparr>) example_df)"
  by (rule apply_standardizer_closed [OF example_stats_dom])

lemma example_windows:
  "length (concat (map (\<lambda>kg. expected_windows 2 (snd kg))
       (groupby_ticker (map (\<lambda>r. r\<lparr>feat := expected_cell example_stats r\<rparr>) example_df)))) = 2"
  "concat (map (\<lambda>kg. expected_windows 30 (snd kg))
       (groupby_ticker (map (\<lambda>r. r\<lparr>feat := expected_cell example_stats r\<rparr>) example_df))) = []"
  by (simp_all only: example_standardized_groups)
     (simp_all add: expected_windows_def example_df_def)

lemma score_two:
  assumes "length X = 2" and "meta ''hidden'' = Some h" and "meta ''layers'' = Some l"
    and "meta ''dropout'' = Some d"
  shows "score_sequences constant_model meta (Some 1) X
         = Inr (Predictions [(1 / 2, True), (1 / 2, True)])"
proof -
  from assms(1) obtain x1 x2 where X: "X = [x1, x2]"
    by (metis (no_types, lifting) length_0_conv length_Suc_conv numeral_2_eq_2)
  show ?thesis
    by (simp add: score_sequences_def assms(2-4) constant_model_def sigmoid_zero
        py_slice_def slice_index_def X)
qed

text \<open>
  The example file scored from the trained directory, whose metadata has \<open>seq_len = 2\<close>:
  with \<open>--seq-len\<close> 30 and with 1 the program prints the same two predictions, those
  of the two windows of length 2. Scored from the directory whose metadata has no
  \<open>seq_len\<close>, \<open>--seq-len\<close> 30 gives no sequence and \<open>--seq-len\<close> 2 the two
  predictions.
\<close>

theorem predictor_uses_metadata_seq_len_witness:
  "meta_json trained_world = Some (meta_of (example_args\<lparr>arg_seq_len := 2\<rparr>) (1 / 2))
   \<and> meta_of (example_args\<lparr>arg_seq_len := 2\<rparr>) (1 / 2) ''seq_len'' = Some (JInt 2)
   \<and> predict_main example_to_datetime example_parse_float constant_model 30 None example_csv
        trained_world
       = predict_main example_to_datetime example_parse_float constant_model 1 None example_csv
           trained_world
   \<and> predict_main example_to_datetime example_parse_float constant_model 1 None example_csv
        trained_world = Inr (Predictions [(1 / 2, True), (1 / 2, True)])
   \<and> predict_main example_to_datetime example_parse_float constant_model 30 None example_csv
        bare_world = Inr NoSequences
   \<and> predict_main example_to_datetime example_parse_float constant_model 2 None example_csv
        bare_world = Inr (Predictions [(1 / 2, True), (1 / 2, True)])"
proof -
  let ?meta = "meta_of (example_args\<lparr>arg_seq_len := 2\<rparr>) (1 / 2)"
  let ?bare = "[''hidden'' \<mapsto> JInt 64, ''layers'' \<mapsto> JInt 1, ''dropout'' \<mapsto> JNum (1 / 10)]"
  let ?df = "map (\<lambda>r. r\<lparr>feat := expected_cell example_stats r\<rparr>) example_df"
  let ?X = "concat (map (\<lambda>kg. expected_windows 2 (snd kg)) (groupby_ticker ?df))"
  have files: "scaler_json trained_world = Some example_stats" "model_pt trained_world = Some 1"
    "meta_json bare_world = Some ?bare" "scaler_json bare_world = Some example_stats"
    "model_pt bare_world = Some 1" "?bare ''seq_len'' = None"
    by (simp_all add: trained_world_def bare_world_def)
  have ne: "?X \<noteq> []"
  proof
    assume "?X = []"
    then have "length ?X = 0" by (simp only: list.size)
    with example_windows(1) show False by (simp only:)
  qed
  have s1: "score_sequences constant_model ?meta (Some 1) ?X
            = Inr (Predictions [(1 / 2, True), (1 / 2, True)])"
    by (rule score_two [OF example_windows(1)]) (simp_all add: meta_of_def)
  have s2: "score_sequences constant_model ?bare (Some 1) ?X
            = Inr (Predictions [(1 / 2, True), (1 / 2, True)])"
    by (rule score_two [OF example_windows(1)]) simp_all
  have m30: "make_sequences ?df 30 = Inr ([], [])"
    using make_sequences_expected [of 30 ?df] example_windows(2)
    by (simp add: expected_windows_def expected_labels_def example_standardized_groups
        example_df_def)
  have m2: "make_sequences ?df 2
            = Inr (?X, concat (map (\<lambda>kg. expected_labels 2 (snd kg)) (groupby_ticker ?df)))"
    using make_sequences_expected [of 2 ?df] by simp
  have p3: "meta_json trained_world = Some ?meta \<and> ?meta ''seq_len'' = Some (JInt 2)"
    by (rule trained_world_meta)
  have p5: "meta_json trained_world = Some ?meta \<and> ?meta ''seq_len'' = Some (JInt (int 2))
            \<and> 0 < (2::nat) \<and> scaler_json trained_world = Some example_stats
            \<and> load_dataset example_to_datetime example_parse_float example_csv None
                = Inr example_df
            \<and> apply_standardizer example_df example_stats = Inr ?df"
    using trained_world_meta files load_example example_standardized by simp
  have p6: "meta_json bare_world = Some ?bare \<and> ?bare ''seq_len'' = None"
    using files by simp
  note t = predictor_uses_metadata_seq_len [of ?meta "JInt 2" 1 trained_world
      example_to_datetime example_parse_float constant_model None example_csv 30 2 2
      example_stats example_df ?df]
  from t p3
  have "predict_main example_to_datetime example_parse_float constant_model 1 None
          example_csv trained_world
        = predict_main example_to_datetime example_parse_float constant_model 30 None
            example_csv trained_world"
    by blast
  then have same: "predict_main example_to_datetime example_parse_float constant_model 30 None
                example_csv trained_world
              = predict_main example_to_datetime example_parse_float constant_model 1 None
                  example_csv trained_world"
    by (rule sym)
  from t p5
  have "predict_main example_to_datetime example_parse_float constant_model 1 None
          example_csv trained_world
        = (if ?X = [] then Inr NoSequences
           else score_sequences constant_model ?meta (model_pt trained_world) ?X)"
    by blast
  then have one: "predict_main example_to_datetime example_parse_float constant_model 1 None
               example_csv trained_world = Inr (Predictions [(1 / 2, True), (1 / 2, True)])"
    by (simp only: ne if_False files s1)
  note b30 = predictor_uses_metadata_seq_len [of ?bare "JInt 2" 30 bare_world
      example_to_datetime example_parse_float constant_model None example_csv 30 2 2
      example_stats example_df ?df]
  note b2 = predictor_uses_metadata_seq_len [of ?bare "JInt 2" 2 bare_world
      example_to_datetime example_parse_float constant_model None example_csv 30 2 2
      example_stats example_df ?df]
  from b30 p6
  have "predict_main example_to_datetime example_parse_float constant_model 30 None
          example_csv bare_world
        = (case scaler_json bare_world of
               None \<Rightarrow> Inl FileNotFoundError
             | Some stats \<Rightarrow>
                 (case load_dataset example_to_datetime example_parse_float example_csv None of
                    Inl e \<Rightarrow> Inl e
                  | Inr df \<Rightarrow>
                      (case apply_standardizer df stats of
                         Inl e \<Rightarrow> Inl e
                       | Inr df' \<Rightarrow>
                           (case make_sequences df' 30 of
                              Inl e \<Rightarrow> Inl e
                            | Inr (X, y) \<Rightarrow>
                                if X = [] then Inr NoSequences
                                else score_sequences constant_model ?bare
                                       (model_pt bare_world) X))))"
    by blast
  then have none: "predict_main example_to_datetime example_parse_float constant_model 30 None
                example_csv bare_world = Inr NoSequences"
    by (simp only: files option.case load_example sum.case example_standardized m30 prod.case
        refl if_True)
  from b2 p6
  have "predict_main example_to_datetime example_parse_float constant_model 2 None
          example_csv bare_world
        = (case scaler_json bare_world of
               None \<Rightarrow> Inl FileNotFoundError
             | Some stats \<Rightarrow>
                 (case load_dataset example_to_datetime example_parse_float example_csv None of
                    Inl e \<Rightarrow> Inl e
                  | Inr df \<Rightarrow>
                      (case apply_standardizer df stats of
                         Inl e \<Rightarrow> Inl e
                       | Inr df' \<Rightarrow>
                           (case make_sequences df' 2 of
                              Inl e \<Rightarrow> Inl e
                            | Inr (X, y) \<Rightarrow>
                                if X = [] then Inr NoSequences
                                else score_sequences constant_model ?bare
                                       (model_pt bare_world) X))))"
    by blast
  then have two: "predict_main example_to_datetime example_parse_float constant_model 2 None
               example_csv bare_world = Inr (Predictions [(1 / 2, True), (1 / 2, True)])"
    by (simp only: files option.case load_example sum.case example_standardized m2 prod.case
        ne if_False s2)
  from trained_world_meta same one none two show ?thesis by blast
qed

end
